theory Spec2Isabelle
  imports Complex_Main "HOL-Library.AList"
begin

section \<open>Python values, exceptions and the object store\<close>

text \<open>
  The module \<^verbatim>\<open>specutils/spectrum1d.py\<close> is embedded over an explicit object store.
  Arrays and dictionaries are mutable Python objects, so a spectrum holds their
  addresses; an operation takes the store and returns the store it leaves behind,
  together with either the exception it raised (\<open>Inl\<close>) or its value (\<open>Inr\<close>).
  Array elements are reals (no NaN, no rounding); metadata values are immutable value
  trees, so a deep copy of a dictionary is a fresh dictionary object with the same items.
\<close>

datatype exn =
    ValueError string
  | TypeError string
  | NameError string
  | AttributeError string
  | KeyError string
  | NotImplementedError string

datatype pyval =
    PNone
  | PBool bool
  | PInt int
  | PFloat real
  | PStr string
  | PList "pyval list"
  | PModule string

type_synonym addr = nat

type_synonym dict = "(string \<times> pyval) list"

record state =
  arrays :: "addr \<Rightarrow> real list"
  masks :: "addr \<Rightarrow> bool list"
  dicts :: "addr \<Rightarrow> dict"
  next_addr :: addr
  warnings :: "string list"

type_synonym 'a result = "(exn + 'a) \<times> state"

text \<open>Sequencing: an exception ends the computation and keeps the store reached so far.\<close>

definition seq :: "(state \<Rightarrow> 'a result) \<Rightarrow> ('a \<Rightarrow> state \<Rightarrow> 'b result) \<Rightarrow> state \<Rightarrow> 'b result" where
  "seq m f st = (case m st of (Inl e, st') \<Rightarrow> (Inl e, st') | (Inr x, st') \<Rightarrow> f x st')"

definition ret :: "'a \<Rightarrow> state \<Rightarrow> 'a result" where
  "ret x st = (Inr x, st)"

definition raise :: "exn \<Rightarrow> state \<Rightarrow> 'a result" where
  "raise e st = (Inl e, st)"

definition pure :: "exn + 'a \<Rightarrow> state \<Rightarrow> 'a result" where
  "pure r st = (r, st)"

text \<open>Allocation: a new object takes the next free address.\<close>

definition new_array :: "real list \<Rightarrow> state \<Rightarrow> addr result" where
  "new_array xs st =
     (Inr (next_addr st),
      st\<lparr>arrays := (arrays st)(next_addr st := xs), next_addr := Suc (next_addr st)\<rparr>)"

definition new_mask :: "bool list \<Rightarrow> state \<Rightarrow> addr result" where
  "new_mask bs st =
     (Inr (next_addr st),
      st\<lparr>masks := (masks st)(next_addr st := bs), next_addr := Suc (next_addr st)\<rparr>)"

definition new_dict :: "dict \<Rightarrow> state \<Rightarrow> addr result" where
  "new_dict d st =
     (Inr (next_addr st),
      st\<lparr>dicts := (dicts st)(next_addr st := d), next_addr := Suc (next_addr st)\<rparr>)"

text \<open>\<^verbatim>\<open>logger.warn(msg)\<close>: the logging sink is the list of messages, oldest first.\<close>

definition warn :: "string \<Rightarrow> state \<Rightarrow> state" where
  "warn msg st = st\<lparr>warnings := warnings st @ [msg]\<rparr>"

section \<open>Dictionaries\<close>

text \<open>
  A dictionary is an association list. \<^verbatim>\<open>d[k] = v\<close> is \<open>AList.update\<close>,
  \<^verbatim>\<open>del d[k]\<close> raises KeyError on a missing key, \<^verbatim>\<open>d.update(other)\<close> assigns the
  items of \<^verbatim>\<open>other\<close> in turn.
\<close>

definition dict_keys :: "dict \<Rightarrow> string list" where
  "dict_keys d = map fst d"

definition dict_update :: "dict \<Rightarrow> dict \<Rightarrow> dict" where
  "dict_update d other = foldl (\<lambda>acc (k, v). AList.update k v acc) d other"

text \<open>
  \<^verbatim>\<open>meta1.viewkeys() & meta2.viewkeys()\<close> is a set. Python leaves its iteration order to
  the hashes; the model lists the common keys in the order they have in the first
  dictionary, each once.
\<close>

definition key_intersection :: "dict \<Rightarrow> dict \<Rightarrow> string list" where
  "key_intersection d1 d2 = remdups (filter (\<lambda>k. k \<in> set (dict_keys d2)) (dict_keys d1))"

fun join :: "string \<Rightarrow> string list \<Rightarrow> string" where
  "join sep [] = []"
| "join sep [x] = x"
| "join sep (x # y # ys) = x @ sep @ join sep (y # ys)"

definition deepcopy_dict :: "addr \<Rightarrow> state \<Rightarrow> addr result" where
  "deepcopy_dict a st = new_dict (dicts st a) st"

fun del_keys :: "string list \<Rightarrow> addr \<Rightarrow> state \<Rightarrow> unit result" where
  "del_keys [] a st = (Inr (), st)"
| "del_keys (k # ks) a st =
     (if k \<in> set (dict_keys (dicts st a))
      then del_keys ks a (st\<lparr>dicts := (dicts st)(a := AList.delete k (dicts st a))\<rparr>)
      else (Inl (KeyError k), st))"

section \<open>merge_meta\<close>

definition merge_meta :: "addr \<Rightarrow> addr \<Rightarrow> state \<Rightarrow> addr result" where
  "merge_meta meta1 meta2 st =
     (let duplicates = key_intersection (dicts st meta1) (dicts st meta2);
          st1 = (if length duplicates > 0
                 then warn (''Removing duplicate keys found in meta data: '' @ join '','' duplicates) st
                 else st)
      in seq (deepcopy_dict meta1) (\<lambda>new_meta.
         seq (deepcopy_dict meta2) (\<lambda>other.
         seq (\<lambda>s. (Inr (), s\<lparr>dicts := (dicts s)(new_meta := dict_update (dicts s new_meta) (dicts s other))\<rparr>)) (\<lambda>_.
         seq (del_keys duplicates new_meta) (\<lambda>_.
         ret new_meta)))) st1)"

text \<open>The items of the merged dictionary, as a function of the items of the two inputs.\<close>

definition merged_items :: "dict \<Rightarrow> dict \<Rightarrow> dict" where
  "merged_items d1 d2 = fold AList.delete (key_intersection d1 d2) (dict_update d1 d2)"

section \<open>NumPy arrays\<close>

text \<open>
  A one-dimensional array is the list of its elements. A binary operation on two arrays
  pairs the elements when the lengths agree and stretches an array of length one over
  the other (broadcasting); other shapes do not combine.
\<close>

definition np_broadcast :: "('a \<Rightarrow> 'b \<Rightarrow> 'c) \<Rightarrow> 'a list \<Rightarrow> 'b list \<Rightarrow> 'c list option" where
  "np_broadcast f xs ys =
     (if length xs = length ys then Some (map2 f xs ys)
      else if length xs = 1 then Some (map (f (hd xs)) ys)
      else if length ys = 1 then Some (map (\<lambda>x. f x (hd ys)) xs)
      else None)"

text \<open>
  \<^verbatim>\<open>all(a == b)\<close>. On shapes that do not combine, the comparison of the NumPy this module
  was written for answers the single value False, which \<^verbatim>\<open>all\<close> cannot iterate (later
  releases raise inside the comparison): either way the caller sees NumPy's exception.
\<close>

definition all_equal :: "real list \<Rightarrow> real list \<Rightarrow> exn + bool" where
  "all_equal xs ys =
     (case np_broadcast (\<lambda>x y. x = y) xs ys of
        None \<Rightarrow> Inl (TypeError ''bool object is not iterable'')
      | Some bs \<Rightarrow> Inr (list_all (\<lambda>b. b) bs))"

text \<open>\<^verbatim>\<open>np.isscalar\<close>: numbers, booleans and strings are scalars; None and containers are not.\<close>

definition np_isscalar :: "pyval \<Rightarrow> bool" where
  "np_isscalar v =
     (case v of PBool _ \<Rightarrow> True | PInt _ \<Rightarrow> True | PFloat _ \<Rightarrow> True | PStr _ \<Rightarrow> True
      | _ \<Rightarrow> False)"

definition type_repr :: "pyval \<Rightarrow> string" where
  "type_repr v =
     (case v of
        PNone \<Rightarrow> ''<type 'NoneType'>''
      | PBool _ \<Rightarrow> ''<type 'bool'>''
      | PInt _ \<Rightarrow> ''<type 'int'>''
      | PFloat _ \<Rightarrow> ''<type 'float'>''
      | PStr _ \<Rightarrow> ''<type 'str'>''
      | PList _ \<Rightarrow> ''<type 'list'>''
      | PModule _ \<Rightarrow> ''<type 'module'>'')"

definition spectrum_type_repr :: string where
  "spectrum_type_repr = ''<class 'specutils.spectrum1d.Spectrum1D'>''"

datatype flux_operand = FluxArray addr | FluxScalar pyval

text \<open>
  \<^verbatim>\<open>self.flux + operand_flux\<close>, the operand an array or a scalar. NumPy has no addition
  of a number array and a string: it raises TypeError, naming the array type and \<^verbatim>\<open>str\<close>.
\<close>

definition np_add :: "real list \<Rightarrow> flux_operand \<Rightarrow> state \<Rightarrow> exn + real list" where
  "np_add xs operand st =
     (case operand of
        FluxArray a \<Rightarrow>
          (case np_broadcast (\<lambda>x y. x + y) xs (arrays st a) of
             None \<Rightarrow> Inl (ValueError ''operands could not be broadcast together'')
           | Some zs \<Rightarrow> Inr zs)
      | FluxScalar v \<Rightarrow>
          (case v of
             PInt i \<Rightarrow> Inr (map (\<lambda>x. x + of_int i) xs)
           | PFloat y \<Rightarrow> Inr (map (\<lambda>x. x + y) xs)
           | PBool b \<Rightarrow> Inr (map (\<lambda>x. x + (if b then 1 else 0)) xs)
           | PStr _ \<Rightarrow> Inl (TypeError ''unsupported operand type(s) for +: numpy.ndarray and str'')
           | _ \<Rightarrow> Inl (TypeError ''unsupported operand type(s) for +'')))"

definition copy_array :: "addr \<Rightarrow> state \<Rightarrow> addr result" where
  "copy_array a st = new_array (arrays st a) st"

definition copy_mask :: "addr \<Rightarrow> state \<Rightarrow> addr result" where
  "copy_mask a st = new_mask (masks st a) st"

subsection \<open>Slices\<close>

text \<open>
  \<^verbatim>\<open>slice(start, stop, step)\<close> keeps its three arguments as they are; indexing an array
  of length \<open>n\<close> with it reads them as integers or None, clips them as CPython does
  and selects the positions \<open>lo, lo + step, ...\<close>. The result is a new array object;
  that NumPy lets it share the buffer of the array it was cut from is not modelled
  (nothing in this module writes into an array).
\<close>

datatype pyslice = PySlice pyval pyval pyval

definition as_index :: "pyval \<Rightarrow> exn + int option" where
  "as_index v =
     (case v of
        PNone \<Rightarrow> Inr None
      | PInt i \<Rightarrow> Inr (Some i)
      | PBool b \<Rightarrow> Inr (Some (if b then 1 else 0))
      | _ \<Rightarrow> Inl (TypeError ''slice indices must be integers or None or have an __index__ method''))"

definition adjust_index :: "int \<Rightarrow> int \<Rightarrow> int \<Rightarrow> int" where
  "adjust_index n step i =
     (if i < 0 then (if i + n < 0 then (if step < 0 then - 1 else 0) else i + n)
      else if i \<ge> n then (if step < 0 then n - 1 else n)
      else i)"

definition slice_indices :: "pyslice \<Rightarrow> nat \<Rightarrow> exn + nat list" where
  "slice_indices sl len =
     (case sl of PySlice start stop step \<Rightarrow>
        (case as_index step of Inl e \<Rightarrow> Inl e | Inr step' \<Rightarrow>
           (let n = int len; st = (case step' of None \<Rightarrow> 1 | Some s \<Rightarrow> s) in
            if st = 0 then Inl (ValueError ''slice step cannot be zero'')
            else
              (case as_index start of Inl e \<Rightarrow> Inl e | Inr start' \<Rightarrow>
              (case as_index stop of Inl e \<Rightarrow> Inl e | Inr stop' \<Rightarrow>
                 (let lo = (case start' of None \<Rightarrow> (if st < 0 then n - 1 else 0)
                            | Some i \<Rightarrow> adjust_index n st i);
                      hi = (case stop' of None \<Rightarrow> (if st < 0 then - 1 else n)
                            | Some j \<Rightarrow> adjust_index n st j);
                      count = (if st < 0
                               then (if hi < lo then (lo - hi - 1) div (- st) + 1 else 0)
                               else (if lo < hi then (hi - lo - 1) div st + 1 else 0))
                  in Inr (map (\<lambda>k. nat (lo + int k * st)) [0..<nat count])))))))"

definition getitem :: "'a list \<Rightarrow> pyslice \<Rightarrow> exn + 'a list" where
  "getitem xs sl =
     (case slice_indices sl (length xs) of
        Inl e \<Rightarrow> Inl e
      | Inr idx \<Rightarrow> Inr (map (\<lambda>i. xs ! i) idx))"

definition getitem_array :: "addr \<Rightarrow> pyslice \<Rightarrow> state \<Rightarrow> addr result" where
  "getitem_array a sl st =
     (case getitem (arrays st a) sl of Inl e \<Rightarrow> (Inl e, st) | Inr xs \<Rightarrow> new_array xs st)"

definition getitem_mask :: "addr \<Rightarrow> pyslice \<Rightarrow> state \<Rightarrow> addr result" where
  "getitem_mask a sl st =
     (case getitem (masks st a) sl of Inl e \<Rightarrow> (Inl e, st) | Inr bs \<Rightarrow> new_mask bs st)"

subsection \<open>searchsorted\<close>

text \<open>
  \<^verbatim>\<open>a.searchsorted(v)\<close> with the default side \<^verbatim>\<open>'left'\<close> is NumPy's binary search:
  it halves the range \<open>[lo, hi)\<close> until it is empty.
\<close>

function bsearch_left :: "real list \<Rightarrow> real \<Rightarrow> nat \<Rightarrow> nat \<Rightarrow> nat" where
  "bsearch_left a key lo hi =
     (if lo < hi
      then (if a ! (lo + (hi - lo) div 2) < key
            then bsearch_left a key (lo + (hi - lo) div 2 + 1) hi
            else bsearch_left a key lo (lo + (hi - lo) div 2))
      else lo)"
  by pat_completeness auto
termination
  by (relation "measure (\<lambda>(a, key, lo, hi). hi - lo)") auto

declare bsearch_left.simps [simp del]

definition searchsorted :: "real list \<Rightarrow> real \<Rightarrow> nat" where
  "searchsorted a v = bsearch_left a v 0 (length a)"

text \<open>
  \<^verbatim>\<open>self.dispersion.searchsorted([start, stop])\<close>. Two numbers are searched for as they
  are. When one bound is a text and the other a text or a number, NumPy turns the bounds
  and the samples into text and searches by text order: it answers two positions within
  the array. Which ones depends on the text NumPy writes for a sample, which the reals
  of this embedding do not have, so nothing more is said about them. Any other bound
  (None, a container) cannot be compared with the samples.
\<close>

definition number_value :: "pyval \<Rightarrow> real option" where
  "number_value v =
     (case v of
        PInt i \<Rightarrow> Some (of_int i)
      | PFloat x \<Rightarrow> Some x
      | PBool b \<Rightarrow> Some (if b then 1 else 0)
      | _ \<Rightarrow> None)"

definition is_number :: "pyval \<Rightarrow> bool" where
  "is_number v = (case number_value v of None \<Rightarrow> False | Some _ \<Rightarrow> True)"

definition is_text :: "pyval \<Rightarrow> bool" where
  "is_text v = (case v of PStr _ \<Rightarrow> True | _ \<Rightarrow> False)"

definition text_positions :: "real list \<Rightarrow> pyval \<Rightarrow> pyval \<Rightarrow> nat \<times> nat" where
  "text_positions =
     (SOME f. \<forall>a start stop. fst (f a start stop) \<le> length a \<and> snd (f a start stop) \<le> length a)"

definition search_bounds :: "real list \<Rightarrow> pyval \<Rightarrow> pyval \<Rightarrow> exn + nat \<times> nat" where
  "search_bounds a start stop =
     (case (number_value start, number_value stop) of
        (Some x0, Some x1) \<Rightarrow> Inr (searchsorted a x0, searchsorted a x1)
      | _ \<Rightarrow>
          if (is_text start \<or> is_number start) \<and> (is_text stop \<or> is_number stop)
          then Inr (text_positions a start stop)
          else Inl (TypeError ''searchsorted: the bounds cannot be compared with the array''))"

section \<open>Names\<close>

text \<open>
  A name in a method body is looked up in the method's local scope, then in the module's
  global scope; a name bound in neither raises NameError (none of the names looked up
  below is a builtin). The module binds \<^verbatim>\<open>copy\<close> to the module \<^verbatim>\<open>copy\<close>; a method with
  a parameter \<^verbatim>\<open>copy\<close> hides it.
\<close>

datatype binding = BValue pyval | BArray addr | BDict addr | BOpaque string

type_synonym scope = "(string \<times> binding) list"

definition module_globals :: scope where
  "module_globals =
     [(''copy'', BValue (PModule ''copy'')),
      (''np'', BValue (PModule ''numpy'')),
      (''warnings'', BValue (PModule ''warnings'')),
      (''logger'', BValue (PModule ''logging'')),
      (''NDData'', BOpaque ''class''),
      (''merge_meta'', BOpaque ''function''),
      (''spec_operation'', BOpaque ''function''),
      (''Spectrum1D'', BOpaque ''class'')]"

definition scipy_globals :: "bool \<Rightarrow> scope" where
  "scipy_globals scipy_available =
     (''scipy_available'', BValue (PBool scipy_available)) #
     (if scipy_available
      then [(''scipy'', BValue (PModule ''scipy'')),
            (''interpolate'', BValue (PModule ''scipy.interpolate''))]
      else [])"

definition resolve :: "scope \<Rightarrow> scope \<Rightarrow> string \<Rightarrow> exn + binding" where
  "resolve locals globals name =
     (case map_of locals name of
        Some b \<Rightarrow> Inr b
      | None \<Rightarrow> (case map_of globals name of Some b \<Rightarrow> Inr b | None \<Rightarrow> Inl (NameError name)))"

definition truthy :: "state \<Rightarrow> binding \<Rightarrow> exn + bool" where
  "truthy st b =
     (case b of
        BValue v \<Rightarrow>
          Inr (case v of
                 PNone \<Rightarrow> False
               | PBool c \<Rightarrow> c
               | PInt i \<Rightarrow> i \<noteq> 0
               | PFloat x \<Rightarrow> x \<noteq> 0
               | PStr s \<Rightarrow> s \<noteq> []
               | PList vs \<Rightarrow> vs \<noteq> []
               | PModule _ \<Rightarrow> True)
      | BArray a \<Rightarrow>
          (case arrays st a of
             [] \<Rightarrow> Inr False
           | [x] \<Rightarrow> Inr (x \<noteq> 0)
           | _ \<Rightarrow> Inl (ValueError ''The truth value of an array with more than one element is ambiguous''))
      | BDict a \<Rightarrow> Inr (dicts st a \<noteq> [])
      | BOpaque _ \<Rightarrow> Inr True)"

text \<open>\<^verbatim>\<open>c.deepcopy\<close>: only the module \<^verbatim>\<open>copy\<close> has the attribute.\<close>

definition getattr_deepcopy :: "binding \<Rightarrow> exn + unit" where
  "getattr_deepcopy c =
     (case c of
        BValue (PModule m) \<Rightarrow>
          (if m = ''copy'' then Inr () else Inl (AttributeError ''module has no attribute deepcopy''))
      | _ \<Rightarrow> Inl (AttributeError ''object has no attribute deepcopy''))"

section \<open>Spectrum1D\<close>

text \<open>
  The embedding covers spectra whose dispersion axis is an explicit array
  (\<^verbatim>\<open>wcs=None\<close>, the only way this module constructs one). \<open>data\<close> is the flux array.
\<close>

record spectrum =
  data :: addr
  dispersion :: addr
  dispersion_unit :: "string option"
  error :: "addr option"
  mask :: "addr option"
  meta :: addr
  units :: "string option"

text \<open>
  Modelled from the spec: \<^verbatim>\<open>NDData.__init__\<close> belongs to astropy, not to this module.
  The base container deep-copies its inputs when \<^verbatim>\<open>copy=True\<close>, keeps the objects it
  is given otherwise, replaces absent metadata by an empty mapping, and when
  \<^verbatim>\<open>validate=True\<close> refuses an error or mask array whose length is not the data's.
\<close>

definition NDData_init ::
  "addr \<Rightarrow> addr option \<Rightarrow> addr option \<Rightarrow> addr option \<Rightarrow> bool \<Rightarrow> bool \<Rightarrow> state \<Rightarrow>
   (addr \<times> addr option \<times> addr option \<times> addr) result" where
  "NDData_init flux err msk mta copy validate st =
     (if validate \<and> (case err of None \<Rightarrow> False
                      | Some e \<Rightarrow> length (arrays st e) \<noteq> length (arrays st flux))
      then (Inl (ValueError ''dimensions of error do not match data''), st)
      else if validate \<and> (case msk of None \<Rightarrow> False
                           | Some m \<Rightarrow> length (masks st m) \<noteq> length (arrays st flux))
      then (Inl (ValueError ''dimensions of mask do not match data''), st)
      else
        seq (if copy then copy_array flux else ret flux) (\<lambda>d.
        seq (case err of None \<Rightarrow> ret None
             | Some e \<Rightarrow> if copy then seq (copy_array e) (\<lambda>a. ret (Some a)) else ret (Some e)) (\<lambda>e'.
        seq (case msk of None \<Rightarrow> ret None
             | Some m \<Rightarrow> if copy then seq (copy_mask m) (\<lambda>a. ret (Some a)) else ret (Some m)) (\<lambda>m'.
        seq (case mta of None \<Rightarrow> new_dict []
             | Some m \<Rightarrow> if copy then deepcopy_dict m else ret m) (\<lambda>mt.
        ret (d, e', m', mt))))) st)"

text \<open>\<^verbatim>\<open>Spectrum1D.__init__\<close> with \<^verbatim>\<open>wcs=None\<close>: the dispersion array is stored as given.\<close>

definition Spectrum1D_init ::
  "addr \<Rightarrow> addr \<Rightarrow> string option \<Rightarrow> addr option \<Rightarrow> addr option \<Rightarrow> addr option \<Rightarrow>
   string option \<Rightarrow> bool \<Rightarrow> bool \<Rightarrow> state \<Rightarrow> spectrum result" where
  "Spectrum1D_init flux disp disp_unit err msk mta un copy validate =
     seq (NDData_init flux err msk mta copy validate) (\<lambda>(d, e', m', mt).
       ret \<lparr>data = d, dispersion = disp, dispersion_unit = disp_unit,
            error = e', mask = m', meta = mt, units = un\<rparr>)"

subsection \<open>Arithmetic\<close>

datatype operand = OSpectrum spectrum | OValue pyval

definition convert_operands ::
  "(spectrum \<Rightarrow> flux_operand \<Rightarrow> addr \<Rightarrow> state \<Rightarrow> spectrum result) \<Rightarrow>
   spectrum \<Rightarrow> operand \<Rightarrow> state \<Rightarrow> spectrum result" where
  "convert_operands func self operand =
     (case operand of
        OSpectrum other \<Rightarrow>
          seq (\<lambda>st. (all_equal (arrays st (dispersion self)) (arrays st (dispersion other)), st))
            (\<lambda>eq.
               if \<not> (eq \<and> units self = units other)
               then raise (ValueError ''Dispersion and units need to match for both Spectrum1D objects'')
               else func self (FluxArray (data other)) (meta other))
      | OValue v \<Rightarrow>
          if np_isscalar v
          then seq (new_dict []) (\<lambda>m. func self (FluxScalar v) m)
          else raise (ValueError (''unsupported operand type(s) for operation: '' @
                        spectrum_type_repr @ '' and '' @ type_repr v)))"

definition add_body :: "spectrum \<Rightarrow> flux_operand \<Rightarrow> addr \<Rightarrow> state \<Rightarrow> spectrum result" where
  "add_body self operand_flux operand_meta =
     seq (\<lambda>st. (np_add (arrays st (data self)) operand_flux st, st)) (\<lambda>zs.
     seq (new_array zs) (\<lambda>new_flux.
     seq (merge_meta (meta self) operand_meta) (\<lambda>new_meta.
     seq (copy_array (dispersion self)) (\<lambda>d.
     Spectrum1D_init new_flux d None None None (Some new_meta) None True True))))"

definition Spectrum1D_add :: "spectrum \<Rightarrow> operand \<Rightarrow> state \<Rightarrow> spectrum result" where
  "Spectrum1D_add = convert_operands add_body"

subsection \<open>slice\<close>

definition units_message :: string where
  "units_message = ''units keyword can only have the values 'dispersion', 'index'' @ [CHR 0x27]"

definition slice_locals :: "pyval \<Rightarrow> pyval \<Rightarrow> pyval \<Rightarrow> string \<Rightarrow> scope" where
  "slice_locals start stop step un =
     [(''self'', BOpaque ''Spectrum1D''), (''start'', BValue start), (''stop'', BValue stop),
      (''step'', BValue step), (''units'', BValue (PStr un))] @
     (if un = ''dispersion''
      then [(''start_idx'', BOpaque ''int''), (''stop_idx'', BOpaque ''int'')] else []) @
     [(''spectrum_slice'', BOpaque ''slice'')]"

definition Spectrum1D_slice ::
  "spectrum \<Rightarrow> pyval \<Rightarrow> pyval \<Rightarrow> pyval \<Rightarrow> string \<Rightarrow> state \<Rightarrow> spectrum result" where
  "Spectrum1D_slice self start stop step un =
     seq (\<lambda>st.
            (if un = ''dispersion'' then
               (if step \<noteq> PNone
                then Inl (ValueError ''step can only be specified for units=pixel'')
                else
                  (case search_bounds (arrays st (dispersion self)) start stop of
                     Inl e \<Rightarrow> Inl e
                   | Inr (start_idx, stop_idx) \<Rightarrow>
                       Inr (PySlice (PInt (int start_idx)) (PInt (int stop_idx)) PNone)))
             else if un = ''index'' then Inr (PySlice start stop step)
             else Inl (ValueError units_message), st))
       (\<lambda>spectrum_slice.
     seq (pure (resolve (slice_locals start stop step un) module_globals ''copy'')) (\<lambda>c.
     seq (\<lambda>st. (truthy st c, st)) (\<lambda>t.
       if t then
         seq (case error self of None \<Rightarrow> ret None
              | Some e \<Rightarrow> seq (getitem_array e spectrum_slice) (\<lambda>a. ret (Some a))) (\<lambda>new_error.
         seq (case mask self of None \<Rightarrow> ret None
              | Some m \<Rightarrow> seq (getitem_mask m spectrum_slice) (\<lambda>a. ret (Some a))) (\<lambda>new_mask.
         seq (getitem_array (data self) spectrum_slice) (\<lambda>f.
         seq (getitem_array (dispersion self) spectrum_slice) (\<lambda>d.
         seq (pure (getattr_deepcopy c)) (\<lambda>_.
         seq (deepcopy_dict (meta self)) (\<lambda>m.
         Spectrum1D_init f d None new_error new_mask (Some m) None True True))))))
       else raise (NotImplementedError ''Inplace will be implemented soon''))))"

subsection \<open>interpolate\<close>

text \<open>
  \<^verbatim>\<open>scipy.interpolate.interp1d\<close> is a collaborator: built from the sample coordinates and
  values, the kind and the bounds policy, and applied to the new coordinates, it
  answers the new values or raises.
\<close>

type_synonym interp1d =
  "real list \<Rightarrow> real list \<Rightarrow> string \<Rightarrow> bool \<Rightarrow> real \<Rightarrow> real list \<Rightarrow> exn + real list"

definition interpolate_locals :: "addr \<Rightarrow> string \<Rightarrow> bool \<Rightarrow> real \<Rightarrow> bool \<Rightarrow> scope" where
  "interpolate_locals disp kind bounds_error fill_value copy =
     [(''self'', BOpaque ''Spectrum1D''), (''dispersion'', BArray disp),
      (''kind'', BValue (PStr kind)), (''bounds_error'', BValue (PBool bounds_error)),
      (''fill_value'', BValue (PFloat fill_value)), (''copy'', BValue (PBool copy))]"

text \<open>
  The arguments of the constructor call in \<^verbatim>\<open>interpolate\<close>, once every name has
  a value: arrays for the flux and the dispersion, an array or None for the error and
  the mask, a dictionary for the metadata.
\<close>

definition as_array :: "binding \<Rightarrow> exn + addr" where
  "as_array b = (case b of BArray a \<Rightarrow> Inr a | _ \<Rightarrow> Inl (TypeError ''an array is required''))"

definition as_optional_array :: "binding \<Rightarrow> exn + addr option" where
  "as_optional_array b =
     (case b of
        BArray a \<Rightarrow> Inr (Some a)
      | BValue PNone \<Rightarrow> Inr None
      | _ \<Rightarrow> Inl (TypeError ''an array or None is required''))"

definition deepcopy_binding :: "binding \<Rightarrow> state \<Rightarrow> addr result" where
  "deepcopy_binding b =
     (case b of BDict a \<Rightarrow> deepcopy_dict a | _ \<Rightarrow> raise (TypeError ''a mapping is required''))"

definition Spectrum1D_interpolate ::
  "bool \<Rightarrow> interp1d \<Rightarrow> spectrum \<Rightarrow> addr \<Rightarrow> string \<Rightarrow> bool \<Rightarrow> real \<Rightarrow> bool \<Rightarrow>
   state \<Rightarrow> spectrum result" where
  "Spectrum1D_interpolate scipy_available interp1d self disp kind bounds_error fill_value copy =
     (let locals = interpolate_locals disp kind bounds_error fill_value copy;
          globals = module_globals @ scipy_globals scipy_available
      in
     seq (if \<not> scipy_available then
            (if kind \<noteq> ''linear''
             then raise (ValueError ''Only 'linear' interpolation is available if scipy is not installed'')
             else
               seq (\<lambda>st. (Inr (), warn ''bounds_error and fill_value keywords ignored as scipy not available'' st)) (\<lambda>_.
               seq (pure (resolve locals globals ''new_'')) (\<lambda>_.
               raise (TypeError ''interp() takes at least 3 arguments (1 given)''))))
          else
            seq (\<lambda>st. (interp1d (arrays st (dispersion self)) (arrays st (data self))
                          kind bounds_error fill_value (arrays st disp), st)) (\<lambda>ys.
            seq (new_array ys) (\<lambda>new_flux.
            ret (locals @ [(''spectrum_interp'', BOpaque ''interp1d''),
                           (''new_flux'', BArray new_flux)]))))
       (\<lambda>locals'.
     seq (pure (resolve locals' globals ''copy'')) (\<lambda>c.
     seq (\<lambda>st. (truthy st c, st)) (\<lambda>t.
       if t then
         seq (pure (resolve locals' globals ''new_flux'')) (\<lambda>new_flux.
         seq (pure (resolve locals' globals ''dispersion'')) (\<lambda>new_disp.
         seq (pure (resolve locals' globals ''new_error'')) (\<lambda>new_error.
         seq (pure (resolve locals' globals ''new_mask'')) (\<lambda>new_mask.
         seq (pure (getattr_deepcopy c)) (\<lambda>_.
         seq (pure (resolve locals' globals ''meta'')) (\<lambda>m.
         seq (deepcopy_binding m) (\<lambda>new_meta.
         seq (pure (as_array new_flux)) (\<lambda>f.
         seq (pure (as_array new_disp)) (\<lambda>d.
         seq (pure (as_optional_array new_error)) (\<lambda>e.
         seq (pure (as_optional_array new_mask)) (\<lambda>k.
         Spectrum1D_init f d None e k (Some new_meta) None False True)))))))))))
       else raise (NotImplementedError ''Inplace will be implemented soon'')))))"

text \<open>
  A spectrum is in the store when every object it refers to has been allocated there:
  the callers of the methods below hold such spectra.
\<close>

definition allocated :: "state \<Rightarrow> spectrum \<Rightarrow> bool" where
  "allocated st s =
     (data s < next_addr st \<and> dispersion s < next_addr st \<and> meta s < next_addr st \<and>
      (case error s of None \<Rightarrow> True | Some e \<Rightarrow> e < next_addr st) \<and>
      (case mask s of None \<Rightarrow> True | Some m \<Rightarrow> m < next_addr st))"

section \<open>Example objects\<close>

text \<open>
  A store with two spectra on the same four dispersion samples, a dispersion array that
  differs from them in its last sample, a shorter one that differs in its third sample,
  and three metadata dictionaries: the first two share the key \<open>b\<close>, the third shares
  no key with the first.
\<close>

definition example_state :: state where
  "example_state =
     \<lparr>arrays = (\<lambda>_. [])(10 := [10, 20, 30, 40], 11 := [1, 2, 3, 4], 12 := [1, 1, 2, 2],
                          15 := [1, 2, 3, 4], 16 := [1, 2, 3, 4], 19 := [1, 2, 3, 5],
                          20 := [1, 2, 4]),
      masks = (\<lambda>_. [])(13 := [False, True, False, False]),
      dicts = (\<lambda>_. [])(14 := [(''a'', PInt 1), (''b'', PInt 2)],
                         17 := [(''b'', PInt 3), (''c'', PInt 4)],
                         18 := [(''c'', PInt 5)]),
      next_addr = 21,
      warnings = []\<rparr>"

definition example_spectrum :: spectrum where
  "example_spectrum =
     \<lparr>data = 10, dispersion = 11, dispersion_unit = None, error = Some 12, mask = Some 13,
      meta = 14, units = Some ''Jy''\<rparr>"

definition example_operand :: spectrum where
  "example_operand =
     \<lparr>data = 15, dispersion = 16, dispersion_unit = None, error = None, mask = None,
      meta = 17, units = Some ''Jy''\<rparr>"

text \<open>
  The same store with one more flux array, of three samples, and the spectrum that pairs
  it with the three-sample dispersion array.
\<close>

definition short_state :: state where
  "short_state =
     example_state\<lparr>arrays := (arrays example_state)(21 := [7, 8, 9]), next_addr := 22\<rparr>"

definition short_operand :: spectrum where
  "short_operand =
     \<lparr>data = 21, dispersion = 20, dispersion_unit = None, error = None, mask = None,
      meta = 17, units = Some ''Jy''\<rparr>"

text \<open>
  A stand-in for the interpolation collaborator: with no samples it raises, otherwise it
  answers the first sample value at every new coordinate.
\<close>

definition example_interp1d :: interp1d where
  "example_interp1d x y kind bounds_error fill_value x_new =
     (case y of
        [] \<Rightarrow> Inl (ValueError ''x and y arrays must have at least one entry'')
      | v # _ \<Rightarrow> Inr (map (\<lambda>_. v) x_new))"

section \<open>Properties of the dictionary operations\<close>

lemma set_keys_update: "set (dict_keys (AList.update k v d)) = insert k (set (dict_keys d))"
  unfolding dict_keys_def by (auto simp: update_keys)

lemma set_keys_delete: "set (dict_keys (AList.delete k d)) = set (dict_keys d) - {k}"
  unfolding dict_keys_def by (simp add: delete_keys)

lemma set_keys_dict_update:
  "set (dict_keys (dict_update d other)) = set (dict_keys d) \<union> set (dict_keys other)"
proof -
  have "set (dict_keys (foldl (\<lambda>acc (k, v). AList.update k v acc) d other)) =
      set (dict_keys d) \<union> set (dict_keys other)"
  proof (induction other arbitrary: d)
    case Nil
    then show ?case by (simp add: dict_keys_def)
  next
    case (Cons kv other)
    obtain k v where kv: "kv = (k, v)" by (cases kv)
    have "set (dict_keys (kv # other)) = insert k (set (dict_keys other))"
      by (simp add: dict_keys_def kv)
    then show ?case
      by (simp add: Cons.IH kv set_keys_update)
  qed
  then show ?thesis by (simp add: dict_update_def)
qed

lemma map_of_dict_update:
  "distinct (dict_keys other) \<Longrightarrow> map_of (dict_update d other) = map_of d ++ map_of other"
  unfolding dict_update_def dict_keys_def
proof (induction other arbitrary: d)
  case Nil
  then show ?case by simp
next
  case (Cons kv other)
  obtain k v where kv: "kv = (k, v)" by (cases kv)
  from Cons.prems kv have notin: "k \<notin> fst ` set other" and dist: "distinct (map fst other)"
    by auto
  have none: "map_of other k = None" using notin by (simp add: map_of_eq_None_iff)
  have "map_of (foldl (\<lambda>acc (k, v). AList.update k v acc) d (kv # other)) =
      map_of (AList.update k v d) ++ map_of other"
    using Cons.IH [OF dist, of "AList.update k v d"] kv by simp
  also have "\<dots> = (map_of d)(k \<mapsto> v) ++ map_of other"
    by (simp only: update_conv')
  also have "\<dots> = map_of d ++ (map_of other)(k \<mapsto> v)"
  proof
    fix x
    show "((map_of d)(k \<mapsto> v) ++ map_of other) x = (map_of d ++ (map_of other)(k \<mapsto> v)) x"
      using none by (cases "x = k") (simp_all add: map_add_def split: option.splits)
  qed
  also have "\<dots> = map_of d ++ map_of (kv # other)"
    by (simp add: kv)
  finally show ?case .
qed


lemma map_of_fold_delete:
  "map_of (fold AList.delete ks d) = map_of d |` (- set ks)"
proof (induction ks arbitrary: d)
  case Nil
  then show ?case by simp
next
  case (Cons k ks)
  have "map_of (fold AList.delete ks (AList.delete k d)) x = (map_of d |` (- set (k # ks))) x" for x
    by (cases "x = k") (simp_all add: Cons.IH delete_conv' restrict_map_def)
  then show ?case by (simp add: fun_eq_iff)
qed

lemma del_keys_eval:
  "distinct ks \<Longrightarrow> set ks \<subseteq> set (dict_keys (dicts st a)) \<Longrightarrow>
   del_keys ks a st = (Inr (), st\<lparr>dicts := (dicts st)(a := fold AList.delete ks (dicts st a))\<rparr>)"
proof (induction ks arbitrary: st)
  case Nil
  then show ?case by simp
next
  case (Cons k ks)
  let ?st = "st\<lparr>dicts := (dicts st)(a := AList.delete k (dicts st a))\<rparr>"
  have sub: "set ks \<subseteq> set (dict_keys (dicts ?st a))"
    using Cons.prems by (auto simp: set_keys_delete)
  have dist: "distinct ks" using Cons.prems by simp
  have step: "del_keys (k # ks) a st = del_keys ks a ?st"
    using Cons.prems by simp
  have same: "?st\<lparr>dicts := (dicts ?st)(a := fold AList.delete ks (dicts ?st a))\<rparr> =
      st\<lparr>dicts := (dicts st)(a := fold AList.delete (k # ks) (dicts st a))\<rparr>"
    by simp
  show ?case
    unfolding step Cons.IH [OF dist sub] same ..
qed

lemma set_key_intersection:
  "set (key_intersection d1 d2) = set (dict_keys d1) \<inter> set (dict_keys d2)"
  by (auto simp: key_intersection_def)

lemma distinct_key_intersection: "distinct (key_intersection d1 d2)"
  by (simp add: key_intersection_def)

lemma merge_meta_eval:
  assumes "meta1 < next_addr st" and "meta2 < next_addr st"
  shows "merge_meta meta1 meta2 st =
     (Inr (next_addr st),
      st\<lparr>dicts := (dicts st)
               (next_addr st := merged_items (dicts st meta1) (dicts st meta2),
                Suc (next_addr st) := dicts st meta2),
         next_addr := Suc (Suc (next_addr st)),
         warnings := (if key_intersection (dicts st meta1) (dicts st meta2) = [] then warnings st
                      else warnings st @ [''Removing duplicate keys found in meta data: '' @
                             join '','' (key_intersection (dicts st meta1) (dicts st meta2))])\<rparr>)"
proof -
  let ?d1 = "dicts st meta1" and ?d2 = "dicts st meta2" and ?n = "next_addr st"
  have sub: "set (key_intersection ?d1 ?d2) \<subseteq> set (dict_keys (dict_update ?d1 ?d2))"
    by (auto simp: set_key_intersection set_keys_dict_update)
  have twist: "(dicts st)(Suc ?n := ?d2, ?n := x) = (dicts st)(?n := x, Suc ?n := ?d2)" for x
    by (rule fun_upd_twist) simp
  show ?thesis
    using assms sub
    by (simp add: merge_meta_def Let_def seq_def ret_def deepcopy_dict_def new_dict_def warn_def
        merged_items_def del_keys_eval distinct_key_intersection twist)
qed

section \<open>merge_meta: shared keys, disjoint keys, inputs\<close>



text \<open>
  C8. \<open>merge_meta\<close> does not change its arguments: the two input dictionaries, and every
  object that existed before the call, hold afterwards what they held before. The
  dictionary it returns is a new object, different from both inputs.
\<close>

theorem merge_meta_leaves_inputs:
  assumes "meta1 < next_addr st" and "meta2 < next_addr st"
  shows "\<exists>a st'. merge_meta meta1 meta2 st = (Inr a, st') \<and>
           dicts st' meta1 = dicts st meta1 \<and> dicts st' meta2 = dicts st meta2 \<and>
           a \<noteq> meta1 \<and> a \<noteq> meta2 \<and> next_addr st \<le> a \<and>
           (\<forall>b. b < next_addr st \<longrightarrow> dicts st' b = dicts st b) \<and>
           arrays st' = arrays st \<and> masks st' = masks st"
  unfolding merge_meta_eval [OF assms]
  using assms by (intro exI conjI) (simp, auto)

theorem merge_meta_leaves_inputs_witness:
  "(14::nat) < next_addr example_state \<and> (17::nat) < next_addr example_state \<and>
   (\<exists>a st'. merge_meta 14 17 example_state = (Inr a, st') \<and>
      dicts st' 14 = [(''a'', PInt 1), (''b'', PInt 2)] \<and>
      dicts st' 17 = [(''b'', PInt 3), (''c'', PInt 4)] \<and>
      a \<noteq> 14 \<and> a \<noteq> 17 \<and> 21 \<le> a)"
proof -
  have h1: "(14::nat) < next_addr example_state" and h2: "(17::nat) < next_addr example_state"
    by (simp_all add: example_state_def)
  have d: "dicts example_state 14 = [(''a'', PInt 1), (''b'', PInt 2)]"
      "dicts example_state 17 = [(''b'', PInt 3), (''c'', PInt 4)]"
      "next_addr example_state = 21"
    by (simp_all add: example_state_def)
  from merge_meta_leaves_inputs [OF h1 h2] obtain a st' where
    "merge_meta 14 17 example_state = (Inr a, st')"
    "dicts st' 14 = dicts example_state 14" "dicts st' 17 = dicts example_state 17"
    "a \<noteq> 14" "a \<noteq> 17" "next_addr example_state \<le> a"
    by blast
  then show ?thesis using h1 h2 d by auto
qed

text \<open>
  C9. When the two metadata dictionaries share no key, \<open>merge_meta\<close> returns their union:
  the keys of the result are the keys of both, a key of the first keeps the value it has
  there, a key of the second the value it has there, and nothing is logged. (A Python
  dictionary holds each key once; the update reads the second one item by item.)
\<close>

theorem merge_meta_disjoint_is_union:
  assumes "meta1 < next_addr st" and "meta2 < next_addr st"
    and "distinct (dict_keys (dicts st meta2))"
    and "set (dict_keys (dicts st meta1)) \<inter> set (dict_keys (dicts st meta2)) = {}"
  shows "\<exists>a st'. merge_meta meta1 meta2 st = (Inr a, st') \<and>
           map_of (dicts st' a) = map_of (dicts st meta1) ++ map_of (dicts st meta2) \<and>
           set (dict_keys (dicts st' a)) =
             set (dict_keys (dicts st meta1)) \<union> set (dict_keys (dicts st meta2)) \<and>
           (\<forall>k \<in> set (dict_keys (dicts st meta1)).
              map_of (dicts st' a) k = map_of (dicts st meta1) k) \<and>
           (\<forall>k \<in> set (dict_keys (dicts st meta2)).
              map_of (dicts st' a) k = map_of (dicts st meta2) k) \<and>
           warnings st' = warnings st"
proof -
  let ?d1 = "dicts st meta1" and ?d2 = "dicts st meta2"
  have none: "key_intersection ?d1 ?d2 = []"
    using assms(4) set_key_intersection [of ?d1 ?d2] by simp
  then have items: "merged_items ?d1 ?d2 = dict_update ?d1 ?d2"
    by (simp add: merged_items_def)
  have m: "map_of (dict_update ?d1 ?d2) = map_of ?d1 ++ map_of ?d2"
    by (rule map_of_dict_update [OF assms(3)])
  have left: "(map_of ?d1 ++ map_of ?d2) k = map_of ?d1 k" if "k \<in> set (dict_keys ?d1)" for k
  proof -
    from that assms(4) have "k \<notin> fst ` set ?d2" by (auto simp: dict_keys_def)
    then have "map_of ?d2 k = None" by (simp add: map_of_eq_None_iff)
    then show ?thesis by (simp add: map_add_def)
  qed
  have right: "(map_of ?d1 ++ map_of ?d2) k = map_of ?d2 k" if "k \<in> set (dict_keys ?d2)" for k
  proof -
    from that have "k \<in> fst ` set ?d2" by (simp add: dict_keys_def)
    then obtain v where "map_of ?d2 k = Some v"
      by (metis domD dom_map_of_conv_image_fst)
    then show ?thesis by (simp add: map_add_def)
  qed
  show ?thesis
    unfolding merge_meta_eval [OF assms(1,2)]
    using none left right
    by (intro exI conjI) (simp, simp_all add: items m set_keys_dict_update)
qed

theorem merge_meta_disjoint_is_union_witness:
  "(14::nat) < next_addr example_state \<and> (18::nat) < next_addr example_state \<and>
   distinct (dict_keys (dicts example_state 18)) \<and>
   set (dict_keys (dicts example_state 14)) \<inter> set (dict_keys (dicts example_state 18)) = {} \<and>
   (\<exists>a st'. merge_meta 14 18 example_state = (Inr a, st') \<and>
      map_of (dicts st' a) ''a'' = Some (PInt 1) \<and>
      map_of (dicts st' a) ''b'' = Some (PInt 2) \<and>
      map_of (dicts st' a) ''c'' = Some (PInt 5) \<and>
      set (dict_keys (dicts st' a)) = {''a'', ''b'', ''c''} \<and>
      warnings st' = [])"
proof -
  have h1: "(14::nat) < next_addr example_state" and h2: "(18::nat) < next_addr example_state"
    by (simp_all add: example_state_def)
  have h3: "distinct (dict_keys (dicts example_state 18))"
    by (simp add: example_state_def dict_keys_def)
  have h4: "set (dict_keys (dicts example_state 14)) \<inter> set (dict_keys (dicts example_state 18)) = {}"
    by (simp add: example_state_def dict_keys_def)
  have d: "dicts example_state 14 = [(''a'', PInt 1), (''b'', PInt 2)]"
      "dicts example_state 18 = [(''c'', PInt 5)]" "warnings example_state = []"
    by (simp_all add: example_state_def)
  from merge_meta_disjoint_is_union [OF h1 h2 h3 h4] obtain a st' where r:
    "merge_meta 14 18 example_state = (Inr a, st')"
    "map_of (dicts st' a) = map_of (dicts example_state 14) ++ map_of (dicts example_state 18)"
    "set (dict_keys (dicts st' a)) =
       set (dict_keys (dicts example_state 14)) \<union> set (dict_keys (dicts example_state 18))"
    "warnings st' = warnings example_state"
    by blast
  have keys: "set (dict_keys (dicts st' a)) = {''a'', ''b'', ''c''}"
    unfolding r(3) d by (auto simp: dict_keys_def)
  have vals: "map_of (dicts st' a) ''a'' = Some (PInt 1)" "map_of (dicts st' a) ''b'' = Some (PInt 2)"
      "map_of (dicts st' a) ''c'' = Some (PInt 5)"
    unfolding r(2) d by (simp_all add: map_add_def)
  show ?thesis
    using h1 h2 h3 h4 r(1,4) keys vals d(3) by auto
qed

section \<open>Slices and sorted search\<close>

lemma adjust_index_bounds_pos:
  "0 < step \<Longrightarrow> 0 \<le> n \<Longrightarrow> 0 \<le> adjust_index n step i \<and> adjust_index n step i \<le> n"
  by (simp add: adjust_index_def)

lemma adjust_index_bounds_neg:
  "step < 0 \<Longrightarrow> 0 \<le> n \<Longrightarrow> - 1 \<le> adjust_index n step i \<and> adjust_index n step i \<le> n - 1"
  by (simp add: adjust_index_def)

lemma adjust_index_id: "0 \<le> i \<Longrightarrow> i \<le> n \<Longrightarrow> adjust_index n 1 i = i"
  by (simp add: adjust_index_def)

lemma slice_indices_range:
  assumes "0 \<le> i" and "i \<le> j" and "j \<le> int n"
  shows "slice_indices (PySlice (PInt i) (PInt j) PNone) n = Inr [nat i..<nat j]"
proof -
  have "map (\<lambda>k. nat (i + int k)) [0..<nat (j - i)] = [nat i..<nat j]"
    using assms by (intro nth_equalityI) (auto simp: nat_add_distrib nat_diff_distrib)
  then show ?thesis
    using assms by (auto simp: slice_indices_def as_index_def adjust_index_id Let_def)
qed

lemma map_nth_upt: "j \<le> length xs \<Longrightarrow> map (\<lambda>k. xs ! k) [i..<j] = take (j - i) (drop i xs)"
  by (intro nth_equalityI) auto

lemma getitem_range:
  assumes "0 \<le> i" and "i \<le> j" and "j \<le> int (length xs)"
  shows "getitem xs (PySlice (PInt i) (PInt j) PNone) = Inr (take (nat (j - i)) (drop (nat i) xs))"
proof -
  have "nat j \<le> length xs" using assms by simp
  then show ?thesis
    using assms by (simp add: getitem_def slice_indices_range map_nth_upt nat_diff_distrib)
qed

lemma steps_below:
  fixes m d x :: int
  assumes "0 < d" and "0 \<le> x" and "m \<le> x div d"
  shows "m * d \<le> x"
proof -
  have "m * d \<le> (x div d) * d"
    using assms by (intro mult_right_mono) auto
  also have "\<dots> \<le> x"
    using assms(1) by (metis mult.commute mult_div_mod_eq pos_mod_sign le_add_same_cancel1)
  finally show ?thesis .
qed

lemma slice_position_pos:
  fixes lo hi st n :: int and m :: nat
  assumes "0 < st" and "0 \<le> lo" and "hi \<le> n" and "lo < hi"
    and "int m < (hi - lo - 1) div st + 1"
  shows "0 \<le> lo + int m * st \<and> lo + int m * st < n"
proof -
  have "int m * st \<le> hi - lo - 1"
    using assms by (intro steps_below) auto
  moreover have "0 \<le> int m * st" using assms(1) by simp
  ultimately show ?thesis using assms by linarith
qed

lemma slice_position_neg:
  fixes lo hi st n :: int and m :: nat
  assumes "st < 0" and "lo \<le> n - 1" and "- 1 \<le> hi" and "hi < lo"
    and "int m < (lo - hi - 1) div (- st) + 1"
  shows "0 \<le> lo + int m * st \<and> lo + int m * st < n"
proof -
  have "int m * (- st) \<le> lo - hi - 1"
    using assms by (intro steps_below) auto
  moreover have "0 \<le> int m * (- st)"
    using assms(1) by (intro mult_nonneg_nonneg) auto
  ultimately show ?thesis using assms by (simp add: algebra_simps)
qed

lemma slice_indices_in_range:
  assumes "slice_indices sl n = Inr idx" and "k \<in> set idx"
  shows "k < n"
proof -
  obtain start stop step where sl: "sl = PySlice start stop step" by (cases sl)
  from assms(1) sl obtain step' start' stop' where
    conv: "as_index step = Inr step'" "as_index start = Inr start'" "as_index stop = Inr stop'"
    by (auto simp: slice_indices_def Let_def split: sum.splits if_splits)
  define st where "st = (case step' of None \<Rightarrow> 1 | Some s \<Rightarrow> s)"
  define lo where "lo = (case start' of None \<Rightarrow> (if st < 0 then int n - 1 else 0)
                            | Some i \<Rightarrow> adjust_index (int n) st i)"
  define hi where "hi = (case stop' of None \<Rightarrow> (if st < 0 then - 1 else int n)
                            | Some j \<Rightarrow> adjust_index (int n) st j)"
  define count where "count = (if st < 0
                               then (if hi < lo then (lo - hi - 1) div (- st) + 1 else 0)
                               else (if lo < hi then (hi - lo - 1) div st + 1 else 0))"
  have "slice_indices sl n =
      (if st = 0 then Inl (ValueError ''slice step cannot be zero'')
       else Inr (map (\<lambda>k. nat (lo + int k * st)) [0..<nat count]))"
    unfolding st_def lo_def hi_def count_def
    by (simp add: slice_indices_def sl conv Let_def)
  with assms(1) have nz: "st \<noteq> 0"
    and idx: "idx = map (\<lambda>k. nat (lo + int k * st)) [0..<nat count]"
    by (auto split: if_splits)
  from assms(2) idx obtain m where m: "m < nat count" "k = nat (lo + int m * st)"
    by auto
  have "0 \<le> lo + int m * st \<and> lo + int m * st < int n"
  proof (cases "st < 0")
    case True
    have lo_le: "lo \<le> int n - 1"
      using True adjust_index_bounds_neg [of st "int n"] by (auto simp: lo_def split: option.splits)
    have hi_ge: "- 1 \<le> hi"
      using True adjust_index_bounds_neg [of st "int n"] by (auto simp: hi_def split: option.splits)
    from m(1) True have "hi < lo" "int m < (lo - hi - 1) div (- st) + 1"
      by (auto simp: count_def split: if_splits)
    then show ?thesis
      using slice_position_neg [OF True lo_le hi_ge] by blast
  next
    case False
    with nz have pos: "0 < st" by simp
    have lo_ge: "0 \<le> lo"
      using pos adjust_index_bounds_pos [of st "int n"] by (auto simp: lo_def split: option.splits)
    have hi_le: "hi \<le> int n"
      using pos adjust_index_bounds_pos [of st "int n"] by (auto simp: hi_def split: option.splits)
    from m(1) False have "lo < hi" "int m < (hi - lo - 1) div st + 1"
      by (auto simp: count_def split: if_splits)
    then show ?thesis
      using slice_position_pos [OF pos lo_ge hi_le] by blast
  qed
  then show ?thesis using m(2) by (simp add: nat_less_iff)
qed


lemma bsearch_left_sorted:
  "sorted a \<Longrightarrow> lo \<le> hi \<Longrightarrow> hi \<le> length a \<Longrightarrow>
         (\<forall>i. i < lo \<longrightarrow> a ! i < key) \<Longrightarrow>
         (\<forall>i. hi \<le> i \<and> i < length a \<longrightarrow> key \<le> a ! i) \<Longrightarrow>
         lo \<le> bsearch_left a key lo hi \<and> bsearch_left a key lo hi \<le> hi \<and>
         (\<forall>i. i < bsearch_left a key lo hi \<longrightarrow> a ! i < key) \<and>
         (\<forall>i. bsearch_left a key lo hi \<le> i \<and> i < length a \<longrightarrow> key \<le> a ! i)"
proof (induction a key lo hi rule: bsearch_left.induct)
  case (1 a key lo hi)
  let ?mid = "lo + (hi - lo) div 2"
  show ?case
  proof (cases "lo < hi")
    case False
    then have "bsearch_left a key lo hi = lo"
      by (subst bsearch_left.simps) simp
    with False "1.prems" show ?thesis by simp
  next
    case True
    then have mid: "lo \<le> ?mid" "?mid < hi" by auto
    show ?thesis
    proof (cases "a ! ?mid < key")
      case less: True
      have below: "\<forall>i. i < ?mid + 1 \<longrightarrow> a ! i < key"
      proof (intro allI impI)
        fix i assume "i < ?mid + 1"
        then have "a ! i \<le> a ! ?mid"
          using "1.prems"(1,3) mid by (intro sorted_nth_mono) auto
        with less show "a ! i < key" by simp
      qed
      have "?mid + 1 \<le> hi" using mid by simp
      have "bsearch_left a key lo hi = bsearch_left a key (?mid + 1) hi"
        using True less by (subst bsearch_left.simps) simp
      with "1.IH"(1) [OF True less "1.prems"(1) \<open>?mid + 1 \<le> hi\<close> "1.prems"(3) below "1.prems"(5)] mid
      show ?thesis by simp
    next
      case geq: False
      have above: "\<forall>i. ?mid \<le> i \<and> i < length a \<longrightarrow> key \<le> a ! i"
      proof (intro allI impI)
        fix i assume "?mid \<le> i \<and> i < length a"
        then have "a ! ?mid \<le> a ! i"
          using "1.prems"(1) by (intro sorted_nth_mono) auto
        with geq show "key \<le> a ! i" by simp
      qed
      have "?mid \<le> length a" using mid "1.prems"(3) by simp
      have "bsearch_left a key lo hi = bsearch_left a key lo ?mid"
        using True geq by (subst bsearch_left.simps) simp
      with "1.IH"(2) [OF True geq "1.prems"(1) mid(1) \<open>?mid \<le> length a\<close> "1.prems"(4) above] mid
      show ?thesis by simp
    qed
  qed
qed

lemma searchsorted_sorted:
  assumes "sorted a"
  shows "searchsorted a v \<le> length a"
    and "i < searchsorted a v \<Longrightarrow> a ! i < v"
    and "searchsorted a v \<le> i \<Longrightarrow> i < length a \<Longrightarrow> v \<le> a ! i"
  using bsearch_left_sorted [OF assms, of 0 "length a" v]
  by (simp_all add: searchsorted_def)

lemma searchsorted_insertion_point:
  assumes "sorted a"
  shows "searchsorted a v = length (filter (\<lambda>x. x < v) a)"
proof -
  let ?r = "searchsorted a v"
  have "filter (\<lambda>x. x < v) (take ?r a) = take ?r a"
    using searchsorted_sorted(1,2) [OF assms, where v = v]
    by (auto simp: filter_id_conv in_set_conv_nth)
  moreover have "filter (\<lambda>x. x < v) (drop ?r a) = []"
    using searchsorted_sorted(3) [OF assms, where v = v]
    by (auto simp: filter_empty_conv in_set_conv_nth not_less)
  moreover have "filter (\<lambda>x. x < v) a =
      filter (\<lambda>x. x < v) (take ?r a) @ filter (\<lambda>x. x < v) (drop ?r a)"
    by (metis append_take_drop_id filter_append)
  ultimately have "length (filter (\<lambda>x. x < v) a) = length (take ?r a)" by simp
  then show ?thesis using searchsorted_sorted(1) [OF assms, where v = v] by simp
qed

lemma searchsorted_window:
  assumes "sorted a" and "d0 \<in> set a" and "d1 \<in> set a" and "d0 < d1"
  shows "searchsorted a d0 < searchsorted a d1"
    and "searchsorted a d1 \<le> length a"
    and "a ! searchsorted a d0 = d0"
    and "searchsorted a d0 \<le> k \<Longrightarrow> k < searchsorted a d1 \<Longrightarrow> d0 \<le> a ! k \<and> a ! k < d1"
proof -
  let ?i0 = "searchsorted a d0" and ?i1 = "searchsorted a d1"
  note s0 = searchsorted_sorted [OF assms(1), where v = d0]
    and s1 = searchsorted_sorted [OF assms(1), where v = d1]
  from assms(2) obtain m where m: "m < length a" "a ! m = d0"
    by (auto simp: in_set_conv_nth)
  have m_ge: "?i0 \<le> m"
    using s0(2) [where i = m] m(2) by (cases "m < ?i0") auto
  have m_lt: "m < ?i1"
    using s1(3) [where i = m] m assms(4) by (cases "m < ?i1") auto
  show "?i0 < ?i1" using m_ge m_lt by simp
  show len: "?i1 \<le> length a" by (rule s1(1))
  have "a ! ?i0 \<le> a ! m"
    using assms(1) m_ge m(1) by (intro sorted_nth_mono) auto
  moreover have "d0 \<le> a ! ?i0"
    using s0(3) [where i = ?i0] m_ge m(1) by simp
  ultimately show "a ! ?i0 = d0" using m(2) by simp
  show "d0 \<le> a ! k \<and> a ! k < d1" if "?i0 \<le> k" and "k < ?i1"
    using that s0(3) [where i = k] s1(2) [where i = k] len by simp
qed

section \<open>slice\<close>

lemma resolve_copy_in_slice:
  "resolve (slice_locals start stop step un) module_globals ''copy'' = Inr (BValue (PModule ''copy''))"
  by (simp add: resolve_def slice_locals_def module_globals_def)

lemma truthy_module: "truthy st (BValue (PModule m)) = Inr True"
  by (simp add: truthy_def)

lemma getattr_deepcopy_copy: "getattr_deepcopy (BValue (PModule ''copy'')) = Inr ()"
  by (simp add: getattr_deepcopy_def)

lemmas slice_steps =
  seq_def ret_def pure_def raise_def resolve_copy_in_slice truthy_module getattr_deepcopy_copy
  getitem_array_def getitem_mask_def new_array_def new_mask_def new_dict_def deepcopy_dict_def
  copy_array_def copy_mask_def Spectrum1D_init_def NDData_init_def

lemma slice_index_eval:
  assumes "allocated st self"
    and "length (arrays st (data self)) = n" and "length (arrays st (dispersion self)) = n"
    and "case error self of None \<Rightarrow> True | Some e \<Rightarrow> length (arrays st e) = n"
    and "case mask self of None \<Rightarrow> True | Some m \<Rightarrow> length (masks st m) = n"
    and "0 \<le> i" and "i \<le> j" and "j \<le> int n"
  shows "\<exists>r st'. Spectrum1D_slice self (PInt i) (PInt j) PNone ''index'' st = (Inr r, st') \<and>
           arrays st' (data r) = take (nat (j - i)) (drop (nat i) (arrays st (data self))) \<and>
           arrays st' (dispersion r) = take (nat (j - i)) (drop (nat i) (arrays st (dispersion self))) \<and>
           length (arrays st' (data r)) = nat (j - i) \<and>
           length (arrays st' (dispersion r)) = nat (j - i) \<and>
           (case error self of None \<Rightarrow> error r = None
            | Some e \<Rightarrow> \<exists>e'. error r = Some e' \<and>
                arrays st' e' = take (nat (j - i)) (drop (nat i) (arrays st e))) \<and>
           (case mask self of None \<Rightarrow> mask r = None
            | Some m \<Rightarrow> \<exists>m'. mask r = Some m' \<and>
                masks st' m' = take (nat (j - i)) (drop (nat i) (masks st m))) \<and>
           dicts st' (meta r) = dicts st (meta self) \<and>
           next_addr st \<le> meta r \<and> next_addr st \<le> data r \<and> next_addr st \<le> dispersion r \<and>
           dicts st' (meta self) = dicts st (meta self) \<and>
           arrays st' (data self) = arrays st (data self) \<and>
           arrays st' (dispersion self) = arrays st (dispersion self)"
proof -
  let ?sl = "PySlice (PInt i) (PInt j) PNone"
  have g: "getitem xs ?sl = Inr (take (nat (j - i)) (drop (nat i) xs))" if "length xs = n"
    for xs :: "'a list"
    using that assms(6-8) by (intro getitem_range) auto
  have len: "min (n - nat i) (nat (j - i)) = nat (j - i)"
    using assms(6-8) by auto
  show ?thesis
  proof (cases "error self")
    case None
    note e = this
    show ?thesis
    proof (cases "mask self")
      case None
      with e assms(1-3) show ?thesis
        by (simp add: Spectrum1D_slice_def slice_steps allocated_def g len)
    next
      case (Some m)
      with e assms(1-3,5) show ?thesis
        by (simp add: Spectrum1D_slice_def slice_steps allocated_def g len)
    qed
  next
    case (Some e)
    note e = this
    show ?thesis
    proof (cases "mask self")
      case None
      with e assms(1-4) show ?thesis
        by (simp add: Spectrum1D_slice_def slice_steps allocated_def g len)
    next
      case (Some m)
      with e assms(1-5) show ?thesis
        by (simp add: Spectrum1D_slice_def slice_steps allocated_def g len)
    qed
  qed
qed

lemma slice_dispersion_as_index:
  "Spectrum1D_slice self (PFloat d0) (PFloat d1) PNone ''dispersion'' st =
   Spectrum1D_slice self (PInt (int (searchsorted (arrays st (dispersion self)) d0)))
     (PInt (int (searchsorted (arrays st (dispersion self)) d1))) PNone ''index'' st"
  by (simp add: Spectrum1D_slice_def search_bounds_def number_value_def seq_def pure_def
      resolve_copy_in_slice)

text \<open>
  C4. On a spectrum whose arrays all have length \<open>n\<close>, slicing by index with bounds
  \<open>0 \<le> i < j \<le> n\<close> returns a new spectrum of length \<open>j - i\<close>: its flux and dispersion,
  and its error and mask when the original has them, are the original's elements at the
  positions \<open>[i, j)\<close>, and its metadata is a new dictionary with the original's items.
  The original's arrays and metadata are left as they were.
\<close>

theorem slice_by_index:
  assumes "allocated st self"
    and "length (arrays st (data self)) = n" and "length (arrays st (dispersion self)) = n"
    and "case error self of None \<Rightarrow> True | Some e \<Rightarrow> length (arrays st e) = n"
    and "case mask self of None \<Rightarrow> True | Some m \<Rightarrow> length (masks st m) = n"
    and "0 \<le> i" and "i < j" and "j \<le> int n"
  shows "\<exists>r st'. Spectrum1D_slice self (PInt i) (PInt j) PNone ''index'' st = (Inr r, st') \<and>
           arrays st' (data r) = take (nat (j - i)) (drop (nat i) (arrays st (data self))) \<and>
           arrays st' (dispersion r) = take (nat (j - i)) (drop (nat i) (arrays st (dispersion self))) \<and>
           length (arrays st' (data r)) = nat (j - i) \<and>
           length (arrays st' (dispersion r)) = nat (j - i) \<and>
           (case error self of None \<Rightarrow> error r = None
            | Some e \<Rightarrow> \<exists>e'. error r = Some e' \<and>
                arrays st' e' = take (nat (j - i)) (drop (nat i) (arrays st e))) \<and>
           (case mask self of None \<Rightarrow> mask r = None
            | Some m \<Rightarrow> \<exists>m'. mask r = Some m' \<and>
                masks st' m' = take (nat (j - i)) (drop (nat i) (masks st m))) \<and>
           dicts st' (meta r) = dicts st (meta self) \<and>
           next_addr st \<le> meta r \<and> next_addr st \<le> data r \<and> next_addr st \<le> dispersion r \<and>
           dicts st' (meta self) = dicts st (meta self) \<and>
           arrays st' (data self) = arrays st (data self) \<and>
           arrays st' (dispersion self) = arrays st (dispersion self)"
  using slice_index_eval [OF assms(1-6) _ assms(8)] assms(7) by simp

lemma example_spectrum_allocated: "allocated example_state example_spectrum"
  by (simp add: allocated_def example_state_def example_spectrum_def)

lemma example_spectrum_fields:
  "data example_spectrum = 10" "dispersion example_spectrum = 11"
  "error example_spectrum = Some 12" "mask example_spectrum = Some 13"
  "meta example_spectrum = 14" "units example_spectrum = Some ''Jy''"
  by (simp_all add: example_spectrum_def)

lemma example_state_objects:
  "arrays example_state 10 = [10, 20, 30, 40]" "arrays example_state 11 = [1, 2, 3, 4]"
  "arrays example_state 12 = [1, 1, 2, 2]" "masks example_state 13 = [False, True, False, False]"
  "dicts example_state 14 = [(''a'', PInt 1), (''b'', PInt 2)]"
  "arrays example_state 15 = [1, 2, 3, 4]" "arrays example_state 16 = [1, 2, 3, 4]"
  "dicts example_state 17 = [(''b'', PInt 3), (''c'', PInt 4)]"
  "dicts example_state 18 = [(''c'', PInt 5)]"
  "arrays example_state 19 = [1, 2, 3, 5]" "arrays example_state 20 = [1, 2, 4]"
  "next_addr example_state = 21" "warnings example_state = []"
  by (simp_all add: example_state_def)

theorem slice_by_index_witness:
  "allocated example_state example_spectrum \<and>
   length (arrays example_state (data example_spectrum)) = 4 \<and>
   length (arrays example_state (dispersion example_spectrum)) = 4 \<and>
   error example_spectrum = Some 12 \<and> length (arrays example_state 12) = 4 \<and>
   mask example_spectrum = Some 13 \<and> length (masks example_state 13) = 4 \<and>
   (\<exists>r st'. Spectrum1D_slice example_spectrum (PInt 1) (PInt 3) PNone ''index'' example_state
        = (Inr r, st') \<and>
      arrays st' (data r) = [20, 30] \<and> arrays st' (dispersion r) = [2, 3] \<and>
      (\<exists>e'. error r = Some e' \<and> arrays st' e' = [1, 2]) \<and>
      (\<exists>m'. mask r = Some m' \<and> masks st' m' = [True, False]) \<and>
      dicts st' (meta r) = [(''a'', PInt 1), (''b'', PInt 2)] \<and> 21 \<le> meta r)"
proof -
  note ex = example_spectrum_fields example_state_objects
  have h2: "length (arrays example_state (data example_spectrum)) = 4"
    and h3: "length (arrays example_state (dispersion example_spectrum)) = 4"
    and h4: "case error example_spectrum of None \<Rightarrow> True
             | Some e \<Rightarrow> length (arrays example_state e) = 4"
    and h5: "case mask example_spectrum of None \<Rightarrow> True
             | Some m \<Rightarrow> length (masks example_state m) = 4"
    by (simp_all add: ex)
  have b: "(0::int) \<le> 1" "(1::int) < 3" "(3::int) \<le> int 4" by simp_all
  have t: "take (nat (3 - 1)) (drop (nat 1) [x0, x1, x2, x3]) = [x1, x2]" for x0 x1 x2 x3 :: 'a
    by (simp add: numeral_2_eq_2)
  from slice_by_index [OF example_spectrum_allocated h2 h3 h4 h5 b]
  show ?thesis
    using example_spectrum_allocated h2 h3 by (simp add: ex t) blast
qed

text \<open>
  C5. On a spectrum whose dispersion array is sorted ascending and holds the two
  coordinates \<open>d0 < d1\<close>, slicing by dispersion from \<open>d0\<close> to \<open>d1\<close> takes the positions
  from the insertion point of \<open>d0\<close> up to, not including, the insertion point of \<open>d1\<close>
  (the insertion point of a value is the number of elements below it). The resulting
  dispersion starts with \<open>d0\<close>, and each of its elements is at least \<open>d0\<close> and strictly
  less than \<open>d1\<close>.
\<close>

theorem slice_by_dispersion:
  assumes "allocated st self"
    and "length (arrays st (data self)) = n" and "length (arrays st (dispersion self)) = n"
    and "case error self of None \<Rightarrow> True | Some e \<Rightarrow> length (arrays st e) = n"
    and "case mask self of None \<Rightarrow> True | Some m \<Rightarrow> length (masks st m) = n"
    and "sorted (arrays st (dispersion self))"
    and "d0 \<in> set (arrays st (dispersion self))" and "d1 \<in> set (arrays st (dispersion self))"
    and "d0 < d1"
  shows "\<exists>r st'. Spectrum1D_slice self (PFloat d0) (PFloat d1) PNone ''dispersion'' st = (Inr r, st') \<and>
           arrays st' (dispersion r) =
             take (searchsorted (arrays st (dispersion self)) d1 - searchsorted (arrays st (dispersion self)) d0)
               (drop (searchsorted (arrays st (dispersion self)) d0) (arrays st (dispersion self))) \<and>
           arrays st' (data r) =
             take (searchsorted (arrays st (dispersion self)) d1 - searchsorted (arrays st (dispersion self)) d0)
               (drop (searchsorted (arrays st (dispersion self)) d0) (arrays st (data self))) \<and>
           searchsorted (arrays st (dispersion self)) d0 =
             length (filter (\<lambda>x. x < d0) (arrays st (dispersion self))) \<and>
           searchsorted (arrays st (dispersion self)) d1 =
             length (filter (\<lambda>x. x < d1) (arrays st (dispersion self))) \<and>
           arrays st' (dispersion r) \<noteq> [] \<and>
           hd (arrays st' (dispersion r)) = d0 \<and>
           (\<forall>x \<in> set (arrays st' (dispersion r)). d0 \<le> x \<and> x < d1)"
proof -
  let ?a = "arrays st (dispersion self)"
  let ?i0 = "searchsorted ?a d0" and ?i1 = "searchsorted ?a d1"
  let ?sl = "PySlice (PInt (int ?i0)) (PInt (int ?i1)) PNone"
  note w = searchsorted_window [OF assms(6-9)]
  have i1: "?i1 \<le> n" using w(2) assms(3) by simp
  let ?res = "take (?i1 - ?i0) (drop ?i0 ?a)"
  have nonempty: "?res \<noteq> []"
    using w(1) i1 assms(3) by auto
  have "?res ! 0 = ?a ! ?i0"
    using w(1) i1 assms(3) by simp
  with nonempty have hd_res: "hd ?res = d0"
    using w(3) by (simp add: hd_conv_nth)
  have bounds: "\<forall>x \<in> set ?res. d0 \<le> x \<and> x < d1"
  proof
    fix x assume "x \<in> set ?res"
    then obtain k where k: "k < length ?res" "x = ?res ! k"
      by (auto simp: in_set_conv_nth)
    then have "x = ?a ! (?i0 + k)" "?i0 + k < ?i1"
      using i1 assms(3) by auto
    then show "d0 \<le> x \<and> x < d1"
      using w(4) [of "?i0 + k"] by simp
  qed
  note ins = searchsorted_insertion_point [OF assms(6)]
  have "int ?i0 \<le> int ?i1" "int ?i1 \<le> int n" "(0::int) \<le> int ?i0"
    using w(1) i1 by simp_all
  from slice_index_eval [OF assms(1-5) this(3,1,2)] obtain r st' where
    run: "Spectrum1D_slice self (PInt (int ?i0)) (PInt (int ?i1)) PNone ''index'' st = (Inr r, st')"
    and d: "arrays st' (dispersion r) = take (nat (int ?i1 - int ?i0)) (drop (nat (int ?i0)) ?a)"
    and f: "arrays st' (data r) =
              take (nat (int ?i1 - int ?i0)) (drop (nat (int ?i0)) (arrays st (data self)))"
    by (elim exE conjE)
  have n: "nat (int ?i1 - int ?i0) = ?i1 - ?i0" "nat (int ?i0) = ?i0"
    by (simp_all add: nat_diff_distrib')
  have run': "Spectrum1D_slice self (PFloat d0) (PFloat d1) PNone ''dispersion'' st = (Inr r, st')"
    using run unfolding slice_dispersion_as_index .
  have d': "arrays st' (dispersion r) = ?res"
    using d unfolding n .
  have f': "arrays st' (data r) = take (?i1 - ?i0) (drop ?i0 (arrays st (data self)))"
    using f unfolding n .
  have c1: "arrays st' (dispersion r) \<noteq> []"
    and c2: "hd (arrays st' (dispersion r)) = d0"
    and c3: "\<forall>x \<in> set (arrays st' (dispersion r)). d0 \<le> x \<and> x < d1"
    unfolding d' using nonempty hd_res bounds by blast+
  show ?thesis
    by (intro exI [of _ r] exI [of _ st'] conjI) (fact run' d' f' ins c1 c2 c3)+
qed


theorem slice_by_dispersion_witness:
  "allocated example_state example_spectrum \<and>
   length (arrays example_state (data example_spectrum)) = 4 \<and>
   length (arrays example_state (dispersion example_spectrum)) = 4 \<and>
   error example_spectrum = Some 12 \<and> length (arrays example_state 12) = 4 \<and>
   mask example_spectrum = Some 13 \<and> length (masks example_state 13) = 4 \<and>
   arrays example_state (dispersion example_spectrum) = [1, 2, 3, 4] \<and>
   sorted [1, 2, 3, 4 :: real] \<and> (2::real) < 4 \<and>
   (\<exists>r st'. Spectrum1D_slice example_spectrum (PFloat 2) (PFloat 4) PNone ''dispersion'' example_state
        = (Inr r, st') \<and>
      arrays st' (dispersion r) = [2, 3] \<and> arrays st' (data r) = [20, 30])"
proof -
  note ex = example_spectrum_fields example_state_objects
  let ?a = "arrays example_state (dispersion example_spectrum)"
  have h2: "length (arrays example_state (data example_spectrum)) = 4"
    and h3: "length ?a = 4"
    and h4: "case error example_spectrum of None \<Rightarrow> True
             | Some e \<Rightarrow> length (arrays example_state e) = 4"
    and h5: "case mask example_spectrum of None \<Rightarrow> True
             | Some m \<Rightarrow> length (masks example_state m) = 4"
    and h6: "sorted ?a" and h7: "2 \<in> set ?a" and h8: "4 \<in> set ?a"
    by (simp_all add: ex)
  have h9: "(2::real) < 4" by simp
  from slice_by_dispersion [OF example_spectrum_allocated h2 h3 h4 h5 h6 h7 h8 h9]
  obtain r st' where
    run: "Spectrum1D_slice example_spectrum (PFloat 2) (PFloat 4) PNone ''dispersion'' example_state
            = (Inr r, st')"
    and d: "arrays st' (dispersion r) = take (searchsorted ?a 4 - searchsorted ?a 2) (drop (searchsorted ?a 2) ?a)"
    and f: "arrays st' (data r) =
              take (searchsorted ?a 4 - searchsorted ?a 2)
                (drop (searchsorted ?a 2) (arrays example_state (data example_spectrum)))"
    and i0: "searchsorted ?a 2 = length (filter (\<lambda>x. x < 2) ?a)"
    and i1: "searchsorted ?a 4 = length (filter (\<lambda>x. x < 4) ?a)"
    by (elim exE conjE)
  have d': "arrays st' (dispersion r) = [2, 3]"
    unfolding d i0 i1 by (simp add: ex)
  have f': "arrays st' (data r) = [20, 30]"
    unfolding f i0 i1 by (simp add: ex)
  have rest: "error example_spectrum = Some 12" "length (arrays example_state 12) = 4"
    "mask example_spectrum = Some 13" "length (masks example_state 13) = 4"
    "?a = [1, 2, 3, 4]" "sorted [1, 2, 3, 4 :: real]"
    by (simp_all add: ex)
  show ?thesis
    by (intro conjI exI [of _ r] exI [of _ st'])
      (fact example_spectrum_allocated h2 h3 rest h9 run d' f')+
qed

section \<open>Arithmetic\<close>

lemma all_equal_same: "all_equal xs xs = Inr True"
  by (auto simp: all_equal_def np_broadcast_def list_all_iff in_set_zip)

lemma np_add_arrays:
  "length xs = length (arrays st a) \<Longrightarrow>
   np_add xs (FluxArray a) st = Inr (map2 (\<lambda>x y. x + y) xs (arrays st a))"
  by (simp add: np_add_def np_broadcast_def)

lemmas add_steps =
  seq_def ret_def raise_def new_array_def new_dict_def deepcopy_dict_def copy_array_def
  Spectrum1D_init_def NDData_init_def

lemma add_spectra_eval:
  assumes "allocated st self" and "allocated st other"
    and "arrays st (dispersion self) = arrays st (dispersion other)"
    and "units self = units other"
    and "length (arrays st (data self)) = length (arrays st (data other))"
  shows "\<exists>r st'. Spectrum1D_add self (OSpectrum other) st = (Inr r, st') \<and>
           arrays st' (data r) =
             map2 (\<lambda>x y. x + y) (arrays st (data self)) (arrays st (data other)) \<and>
           arrays st' (dispersion r) = arrays st (dispersion self) \<and>
           next_addr st \<le> dispersion r \<and>
           dicts st' (meta r) = merged_items (dicts st (meta self)) (dicts st (meta other)) \<and>
           error r = None \<and> mask r = None \<and>
           arrays st' (dispersion self) = arrays st (dispersion self) \<and>
           arrays st' (data self) = arrays st (data self) \<and>
           arrays st' (data other) = arrays st (data other)"
proof -
  let ?st1 = "st\<lparr>arrays := (arrays st)(next_addr st :=
      map2 (\<lambda>x y. x + y) (arrays st (data self)) (arrays st (data other))),
      next_addr := Suc (next_addr st)\<rparr>"
  have m: "meta self < next_addr ?st1" "meta other < next_addr ?st1"
    using assms(1,2) by (simp_all add: allocated_def)
  show ?thesis
    using assms
    by (simp add: Spectrum1D_add_def convert_operands_def add_body_def all_equal_same
        np_add_arrays add_steps merge_meta_eval [OF m] allocated_def)
qed


lemma all_equal_differ:
  assumes "i < length xs" and "i < length ys" and "xs ! i \<noteq> ys ! i"
    and "length xs = length ys \<or> length xs = 1 \<or> length ys = 1"
  shows "all_equal xs ys = Inr False"
proof -
  consider (same) "length xs = length ys"
    | (left) "length xs \<noteq> length ys" "length xs = 1"
    | (right) "length xs \<noteq> length ys" "length xs \<noteq> 1" "length ys = 1"
    using assms(4) by blast
  then show ?thesis
  proof cases
    case same
    have "(xs ! i, ys ! i) \<in> set (zip xs ys)"
      using assms(1,2) by (auto simp: in_set_zip)
    with assms(3) have "\<not> list_all (\<lambda>b. b) (map2 (\<lambda>x y. x = y) xs ys)"
      by (force simp: list_all_iff)
    with same show ?thesis by (simp add: all_equal_def np_broadcast_def)
  next
    case left
    with assms(1) have i: "i = 0" by simp
    from left obtain x where xs: "xs = [x]" by (cases xs) auto
    have "ys ! 0 \<in> set ys" using assms(2) i by (intro nth_mem) simp
    with assms(3) i xs have "\<not> list_all (\<lambda>b. b) (map (\<lambda>y. hd xs = y) ys)"
      by (auto simp: list_all_iff)
    with left show ?thesis by (simp add: all_equal_def np_broadcast_def)
  next
    case right
    with assms(2) have i: "i = 0" by simp
    from right obtain y where ys: "ys = [y]" by (cases ys) auto
    have "xs ! 0 \<in> set xs" using assms(1) i by (intro nth_mem) simp
    with assms(3) i ys have "\<not> list_all (\<lambda>b. b) (map (\<lambda>x. x = hd ys) xs)"
      by (auto simp: list_all_iff)
    with right show ?thesis by (simp add: all_equal_def np_broadcast_def)
  qed
qed

lemma all_equal_shapes:
  "length xs = length ys \<or> length xs = 1 \<or> length ys = 1 \<Longrightarrow> \<exists>b. all_equal xs ys = Inr b"
  by (auto simp: all_equal_def np_broadcast_def)

lemma all_equal_mismatch:
  "length xs \<noteq> length ys \<Longrightarrow> length xs \<noteq> 1 \<Longrightarrow> length ys \<noteq> 1 \<Longrightarrow>
   all_equal xs ys = Inl (TypeError ''bool object is not iterable'')"
  by (simp add: all_equal_def np_broadcast_def)

text \<open>
  Let the dispersion arrays of two spectra differ at some common index, or their units
  differ. When the two arrays have shapes that NumPy compares (equal lengths, or one of
  length one), every wrapped operation (whatever its body \<open>func\<close>, \<open>add_body\<close> for
  \<^verbatim>\<open>__add__\<close>) raises the ValueError saying that dispersion and units need to match, and
  leaves the store as it was. On other shapes the comparison raises before the check
  can answer.
\<close>

theorem operation_refuses_mismatch:
  assumes "(\<exists>i. i < length (arrays st (dispersion self)) \<and> i < length (arrays st (dispersion other)) \<and>
              arrays st (dispersion self) ! i \<noteq> arrays st (dispersion other) ! i) \<or>
           units self \<noteq> units other"
  shows "(length (arrays st (dispersion self)) = length (arrays st (dispersion other)) \<or>
          length (arrays st (dispersion self)) = 1 \<or> length (arrays st (dispersion other)) = 1 \<longrightarrow>
            convert_operands func self (OSpectrum other) st =
              (Inl (ValueError ''Dispersion and units need to match for both Spectrum1D objects''), st)) \<and>
         (length (arrays st (dispersion self)) \<noteq> length (arrays st (dispersion other)) \<and>
          length (arrays st (dispersion self)) \<noteq> 1 \<and> length (arrays st (dispersion other)) \<noteq> 1 \<longrightarrow>
            convert_operands func self (OSpectrum other) st =
              (Inl (TypeError ''bool object is not iterable''), st))"
proof -
  let ?d1 = "arrays st (dispersion self)" and ?d2 = "arrays st (dispersion other)"
  let ?err = "ValueError ''Dispersion and units need to match for both Spectrum1D objects''"
  have shaped: "convert_operands func self (OSpectrum other) st = (Inl ?err, st)"
    if sh: "length ?d1 = length ?d2 \<or> length ?d1 = 1 \<or> length ?d2 = 1"
  proof -
    from all_equal_shapes [OF sh] obtain b where b: "all_equal ?d1 ?d2 = Inr b" ..
    have "\<not> (b \<and> units self = units other)"
    proof (cases "units self = units other")
      case True
      with assms obtain i where "i < length ?d1" "i < length ?d2" "?d1 ! i \<noteq> ?d2 ! i"
        by blast
      from all_equal_differ [OF this sh] b show ?thesis by simp
    next
      case False
      then show ?thesis by simp
    qed
    then show ?thesis
      by (auto simp: convert_operands_def seq_def raise_def b)
  qed
  have unshaped: "convert_operands func self (OSpectrum other) st =
      (Inl (TypeError ''bool object is not iterable''), st)"
    if "length ?d1 \<noteq> length ?d2" and "length ?d1 \<noteq> 1" and "length ?d2 \<noteq> 1"
    using all_equal_mismatch [OF that] by (simp add: convert_operands_def seq_def)
  from shaped unshaped show ?thesis by blast
qed


lemma example_operand_allocated: "allocated example_state example_operand"
  by (simp add: allocated_def example_state_def example_operand_def)

lemma example_operand_fields:
  "data example_operand = 15" "dispersion example_operand = 16"
  "error example_operand = None" "mask example_operand = None"
  "meta example_operand = 17" "units example_operand = Some ''Jy''"
  by (simp_all add: example_operand_def)

theorem operation_refuses_mismatch_witness:
  "arrays example_state (dispersion example_spectrum) ! 3 \<noteq>
     arrays example_state (dispersion (example_operand\<lparr>dispersion := 19\<rparr>)) ! 3 \<and>
   length (arrays example_state (dispersion example_spectrum)) =
     length (arrays example_state (dispersion (example_operand\<lparr>dispersion := 19\<rparr>))) \<and>
   Spectrum1D_add example_spectrum (OSpectrum (example_operand\<lparr>dispersion := 19\<rparr>)) example_state =
     (Inl (ValueError ''Dispersion and units need to match for both Spectrum1D objects''),
      example_state)"
proof -
  note ex = example_spectrum_fields example_operand_fields example_state_objects
  let ?other = "example_operand\<lparr>dispersion := 19\<rparr>"
  let ?d1 = "arrays example_state (dispersion example_spectrum)"
  let ?d2 = "arrays example_state (dispersion ?other)"
  have differ: "?d1 ! 3 \<noteq> ?d2 ! 3" by (simp add: ex)
  have len: "length ?d1 = length ?d2" by (simp add: ex)
  have "(3::nat) < length ?d1 \<and> 3 < length ?d2 \<and> ?d1 ! 3 \<noteq> ?d2 ! 3"
    by (simp add: ex)
  then have h: "(\<exists>i. i < length ?d1 \<and> i < length ?d2 \<and> ?d1 ! i \<noteq> ?d2 ! i) \<or>
      units example_spectrum \<noteq> units ?other"
    by blast
  from operation_refuses_mismatch [OF h, of add_body] len
  have "Spectrum1D_add example_spectrum (OSpectrum ?other) example_state =
     (Inl (ValueError ''Dispersion and units need to match for both Spectrum1D objects''),
      example_state)"
    unfolding Spectrum1D_add_def by blast
  with differ len show ?thesis by blast
qed

text \<open>
  C3. The check of \<^verbatim>\<open>spec_operation\<close> is meant to refuse every pair of spectra whose
  dispersion or units do not match with its ValueError. On two well-formed spectra with
  four and three samples, whose dispersion arrays differ at index 2, it does not get
  that far: the comparison of the two arrays answers no array, \<^verbatim>\<open>all\<close> raises TypeError,
  and that exception, not the ValueError, is what the caller sees.
\<close>

theorem add_mismatched_lengths:
  "allocated short_state example_spectrum \<and> allocated short_state short_operand \<and>
   length (arrays short_state (data example_spectrum)) = 4 \<and>
   length (arrays short_state (dispersion example_spectrum)) = 4 \<and>
   length (arrays short_state (data short_operand)) = 3 \<and>
   length (arrays short_state (dispersion short_operand)) = 3 \<and>
   arrays short_state (dispersion example_spectrum) ! 2 \<noteq>
     arrays short_state (dispersion short_operand) ! 2 \<and>
   Spectrum1D_add example_spectrum (OSpectrum short_operand) short_state =
     (Inl (TypeError ''bool object is not iterable''), short_state) \<and>
   Spectrum1D_add example_spectrum (OSpectrum short_operand) short_state \<noteq>
     (Inl (ValueError ''Dispersion and units need to match for both Spectrum1D objects''),
      short_state)"
  by (simp add: Spectrum1D_add_def convert_operands_def seq_def all_equal_def np_broadcast_def
      allocated_def short_state_def short_operand_def example_spectrum_fields
      example_state_objects)

text \<open>
  C1. For two spectra in the store whose dispersion arrays are element-wise equal, whose
  units are equal and whose flux arrays are as long as their dispersion arrays,
  \<^verbatim>\<open>__add__\<close> returns a new spectrum: its flux is the element-wise sum of the two
  fluxes, its dispersion is a new array (an address not in use before the call) with
  the elements of the left operand's, its metadata holds what \<open>merge_meta\<close> returns for
  the two metadata dictionaries, and it has neither error nor mask.
\<close>

theorem add_spectra:
  assumes "allocated st self" and "allocated st other"
    and "arrays st (dispersion self) = arrays st (dispersion other)"
    and "units self = units other"
    and "length (arrays st (data self)) = length (arrays st (dispersion self))"
    and "length (arrays st (data other)) = length (arrays st (dispersion other))"
  shows "\<exists>r st'. Spectrum1D_add self (OSpectrum other) st = (Inr r, st') \<and>
           arrays st' (data r) =
             map2 (\<lambda>x y. x + y) (arrays st (data self)) (arrays st (data other)) \<and>
           arrays st' (dispersion r) = arrays st (dispersion self) \<and>
           dispersion r \<noteq> dispersion self \<and> next_addr st \<le> dispersion r \<and>
           (\<exists>a stm. merge_meta (meta self) (meta other) st = (Inr a, stm) \<and>
              dicts st' (meta r) = dicts stm a) \<and>
           error r = None \<and> mask r = None"
proof -
  have len: "length (arrays st (data self)) = length (arrays st (data other))"
    using assms(3,5,6) by simp
  from add_spectra_eval [OF assms(1-4) len] obtain r st' where
    run: "Spectrum1D_add self (OSpectrum other) st = (Inr r, st')"
    and f: "arrays st' (data r) =
              map2 (\<lambda>x y. x + y) (arrays st (data self)) (arrays st (data other))"
    and d: "arrays st' (dispersion r) = arrays st (dispersion self)"
    and fresh: "next_addr st \<le> dispersion r"
    and m: "dicts st' (meta r) = merged_items (dicts st (meta self)) (dicts st (meta other))"
    and none: "error r = None" "mask r = None"
    by (elim exE conjE)
  have al: "meta self < next_addr st" "meta other < next_addr st" "dispersion self < next_addr st"
    using assms(1,2) by (simp_all add: allocated_def)
  have neq: "dispersion r \<noteq> dispersion self"
    using fresh al(3) by simp
  have "\<exists>a stm. merge_meta (meta self) (meta other) st = (Inr a, stm) \<and>
      dicts st' (meta r) = dicts stm a"
    unfolding merge_meta_eval [OF al(1,2)] m by (intro exI conjI) (rule refl, simp)
  then show ?thesis
    using run f d neq fresh none by blast
qed

theorem add_spectra_witness:
  "allocated example_state example_spectrum \<and> allocated example_state example_operand \<and>
   arrays example_state (dispersion example_spectrum) =
     arrays example_state (dispersion example_operand) \<and>
   units example_spectrum = units example_operand \<and>
   length (arrays example_state (data example_spectrum)) =
     length (arrays example_state (dispersion example_spectrum)) \<and>
   length (arrays example_state (data example_operand)) =
     length (arrays example_state (dispersion example_operand)) \<and>
   (\<exists>r st'. Spectrum1D_add example_spectrum (OSpectrum example_operand) example_state = (Inr r, st') \<and>
      arrays st' (data r) = [11, 22, 33, 44] \<and>
      arrays st' (dispersion r) = [1, 2, 3, 4] \<and>
      dispersion r \<noteq> dispersion example_spectrum \<and>
      dicts st' (meta r) = [(''a'', PInt 1), (''c'', PInt 4)] \<and>
      error r = None \<and> mask r = None)"
proof -
  note ex = example_spectrum_fields example_operand_fields example_state_objects
  have h3: "arrays example_state (dispersion example_spectrum) =
      arrays example_state (dispersion example_operand)"
    and h4: "units example_spectrum = units example_operand"
    and h5: "length (arrays example_state (data example_spectrum)) =
      length (arrays example_state (dispersion example_spectrum))"
    and h6: "length (arrays example_state (data example_operand)) =
      length (arrays example_state (dispersion example_operand))"
    by (simp_all add: ex)
  from add_spectra [OF example_spectrum_allocated example_operand_allocated h3 h4 h5 h6]
  obtain r st' a stm where
    run: "Spectrum1D_add example_spectrum (OSpectrum example_operand) example_state = (Inr r, st')"
    and f: "arrays st' (data r) = map2 (\<lambda>x y. x + y)
              (arrays example_state (data example_spectrum)) (arrays example_state (data example_operand))"
    and d: "arrays st' (dispersion r) = arrays example_state (dispersion example_spectrum)"
    and neq: "dispersion r \<noteq> dispersion example_spectrum"
    and mm: "merge_meta (meta example_spectrum) (meta example_operand) example_state = (Inr a, stm)"
    and m: "dicts st' (meta r) = dicts stm a"
    and none: "error r = None" "mask r = None"
    by (elim exE conjE)
  have f': "arrays st' (data r) = [11, 22, 33, 44]"
    unfolding f by (simp add: ex)
  have d': "arrays st' (dispersion r) = [1, 2, 3, 4]"
    unfolding d by (simp add: ex)
  have al: "meta example_spectrum < next_addr example_state"
      "meta example_operand < next_addr example_state"
    by (simp_all add: ex)
  have "dicts stm a = merged_items (dicts example_state 14) (dicts example_state 17)"
    using mm unfolding merge_meta_eval [OF al] by (auto simp: ex)
  also have "\<dots> = [(''a'', PInt 1), (''c'', PInt 4)]"
    by (simp add: ex merged_items_def key_intersection_def dict_update_def dict_keys_def)
  finally have m': "dicts st' (meta r) = [(''a'', PInt 1), (''c'', PInt 4)]"
    using m by simp
  show ?thesis
    by (intro conjI exI [of _ r] exI [of _ st'])
      (fact example_spectrum_allocated example_operand_allocated h3 h4 h5 h6 run f' d' neq m' none)+
qed

text \<open>
  C7 (amended). For an operand that is not a Spectrum1D and that \<^verbatim>\<open>np.isscalar\<close> rejects
  (None, a list), every wrapped operation raises the ValueError whose message names the
  type of the spectrum and the type of the operand, and leaves the store as it was. A
  text string is a scalar for \<^verbatim>\<open>np.isscalar\<close>: adding any text string raises the TypeError
  of the array addition, after the empty metadata dictionary of a scalar operand has
  been made, and produces no spectrum.
\<close>

theorem operation_refuses_non_scalar:
  assumes "\<not> np_isscalar v"
  shows "convert_operands func self (OValue v) st =
           (Inl (ValueError (''unsupported operand type(s) for operation: '' @
                   spectrum_type_repr @ '' and '' @ type_repr v)), st) \<and>
         np_isscalar (PStr s) \<and>
         Spectrum1D_add self (OValue (PStr s)) st =
           (Inl (TypeError ''unsupported operand type(s) for +: numpy.ndarray and str''),
            snd (new_dict [] st))"
  using assms
  by (simp add: convert_operands_def raise_def Spectrum1D_add_def add_body_def seq_def new_dict_def
      np_isscalar_def np_add_def)

theorem operation_refuses_non_scalar_witness:
  "\<not> np_isscalar (PList [PInt 1, PInt 2]) \<and>
   Spectrum1D_add example_spectrum (OValue (PList [PInt 1, PInt 2])) example_state =
     (Inl (ValueError (''unsupported operand type(s) for operation: '' @
        ''<class 'specutils.spectrum1d.Spectrum1D'>'' @ '' and '' @ ''<type 'list'>'')),
      example_state) \<and>
   np_isscalar (PStr ''abc'') \<and>
   Spectrum1D_add example_spectrum (OValue (PStr ''abc'')) example_state =
     (Inl (TypeError ''unsupported operand type(s) for +: numpy.ndarray and str''),
      snd (new_dict [] example_state))"
proof -
  have h: "\<not> np_isscalar (PList [PInt 1, PInt 2])" by (simp add: np_isscalar_def)
  from operation_refuses_non_scalar [OF h, of add_body example_spectrum example_state "''abc''"]
  show ?thesis
    using h by (simp add: Spectrum1D_add_def spectrum_type_repr_def type_repr_def)
qed

text \<open>
  The claim as stated fails on a text string: \<^verbatim>\<open>np.isscalar\<close> accepts it, and the error
  is the TypeError of the array addition, not the wrapper's message about both operands.
\<close>

theorem string_operand_counterexample:
  "fst (Spectrum1D_add example_spectrum (OValue (PStr ''abc'')) example_state) =
     Inl (TypeError ''unsupported operand type(s) for +: numpy.ndarray and str'') \<and>
   fst (Spectrum1D_add example_spectrum (OValue (PStr ''abc'')) example_state) \<noteq>
     Inl (ValueError (''unsupported operand type(s) for operation: '' @
            spectrum_type_repr @ '' and '' @ type_repr (PStr ''abc'')))"
  by (simp add: Spectrum1D_add_def convert_operands_def add_body_def seq_def new_dict_def
      np_isscalar_def np_add_def)

section \<open>interpolate\<close>

lemmas interpolate_steps =
  Spectrum1D_interpolate_def Let_def seq_def pure_def raise_def ret_def resolve_def
  interpolate_locals_def module_globals_def scipy_globals_def truthy_def new_array_def warn_def

lemma interpolate_scope_undefined:
  "resolve (interpolate_locals disp kind bounds_error fill_value copy @
            [(''spectrum_interp'', BOpaque ''interp1d''), (''new_flux'', BArray a)])
     (module_globals @ scipy_globals True) ''new_error'' = Inl (NameError ''new_error'')"
  "resolve (interpolate_locals disp kind bounds_error fill_value copy @
            [(''spectrum_interp'', BOpaque ''interp1d''), (''new_flux'', BArray a)])
     (module_globals @ scipy_globals True) ''new_mask'' = Inl (NameError ''new_mask'')"
  "resolve (interpolate_locals disp kind bounds_error fill_value copy @
            [(''spectrum_interp'', BOpaque ''interp1d''), (''new_flux'', BArray a)])
     (module_globals @ scipy_globals True) ''meta'' = Inl (NameError ''meta'')"
  "resolve (interpolate_locals disp kind bounds_error fill_value copy @
            [(''spectrum_interp'', BOpaque ''interp1d''), (''new_flux'', BArray a)])
     (module_globals @ scipy_globals True) ''copy'' = Inr (BValue (PBool copy))"
  by (simp_all add: resolve_def interpolate_locals_def module_globals_def scipy_globals_def)

lemma interpolate_fallback_undefined:
  "resolve (interpolate_locals disp kind bounds_error fill_value copy)
     (module_globals @ scipy_globals False) ''new_'' = Inl (NameError ''new_'')"
  by (simp add: resolve_def interpolate_locals_def module_globals_def scipy_globals_def)

text \<open>
  C10. With scipy available and \<^verbatim>\<open>copy=True\<close>, \<open>interpolate\<close> never returns a spectrum:
  either the interpolation routine raises, or the constructor call raises NameError at
  its first undefined argument, \<^verbatim>\<open>new_error\<close>. In the scope of that call the names
  \<^verbatim>\<open>new_error\<close>, \<^verbatim>\<open>new_mask\<close> and \<^verbatim>\<open>meta\<close> are bound nowhere, and \<^verbatim>\<open>copy\<close> is the
  boolean parameter, which has no \<^verbatim>\<open>deepcopy\<close>.
\<close>

theorem interpolate_copy_never_returns:
  "(case interp1d (arrays st (dispersion self)) (arrays st (data self)) kind bounds_error
           fill_value (arrays st disp) of
      Inl e \<Rightarrow>
        Spectrum1D_interpolate True interp1d self disp kind bounds_error fill_value True st =
          (Inl e, st)
    | Inr ys \<Rightarrow>
        Spectrum1D_interpolate True interp1d self disp kind bounds_error fill_value True st =
          (Inl (NameError ''new_error''), snd (new_array ys st))) \<and>
   (\<exists>e st'. Spectrum1D_interpolate True interp1d self disp kind bounds_error fill_value True st =
      (Inl e, st')) \<and>
   resolve (interpolate_locals disp kind bounds_error fill_value True @
            [(''spectrum_interp'', BOpaque ''interp1d''), (''new_flux'', BArray a)])
     (module_globals @ scipy_globals True) ''new_error'' = Inl (NameError ''new_error'') \<and>
   resolve (interpolate_locals disp kind bounds_error fill_value True @
            [(''spectrum_interp'', BOpaque ''interp1d''), (''new_flux'', BArray a)])
     (module_globals @ scipy_globals True) ''new_mask'' = Inl (NameError ''new_mask'') \<and>
   resolve (interpolate_locals disp kind bounds_error fill_value True @
            [(''spectrum_interp'', BOpaque ''interp1d''), (''new_flux'', BArray a)])
     (module_globals @ scipy_globals True) ''meta'' = Inl (NameError ''meta'') \<and>
   resolve (interpolate_locals disp kind bounds_error fill_value True @
            [(''spectrum_interp'', BOpaque ''interp1d''), (''new_flux'', BArray a)])
     (module_globals @ scipy_globals True) ''copy'' = Inr (BValue (PBool True)) \<and>
   getattr_deepcopy (BValue (PBool True)) = Inl (AttributeError ''object has no attribute deepcopy'')"
proof -
  have run: "case interp1d (arrays st (dispersion self)) (arrays st (data self)) kind bounds_error
           fill_value (arrays st disp) of
      Inl e \<Rightarrow>
        Spectrum1D_interpolate True interp1d self disp kind bounds_error fill_value True st =
          (Inl e, st)
    | Inr ys \<Rightarrow>
        Spectrum1D_interpolate True interp1d self disp kind bounds_error fill_value True st =
          (Inl (NameError ''new_error''), snd (new_array ys st))"
    by (cases "interp1d (arrays st (dispersion self)) (arrays st (data self)) kind bounds_error
          fill_value (arrays st disp)")
      (simp_all add: interpolate_steps)
  then have fails: "\<exists>e st'. Spectrum1D_interpolate True interp1d self disp kind bounds_error
      fill_value True st = (Inl e, st')"
    by (cases "interp1d (arrays st (dispersion self)) (arrays st (data self)) kind bounds_error
          fill_value (arrays st disp)") auto
  have attr: "getattr_deepcopy (BValue (PBool True)) =
      Inl (AttributeError ''object has no attribute deepcopy'')"
    by (simp add: getattr_deepcopy_def)
  show ?thesis
    by (intro conjI) (fact run fails interpolate_scope_undefined attr)+
qed

theorem interpolate_copy_never_returns_witness:
  "Spectrum1D_interpolate True example_interp1d example_spectrum 16 ''linear'' True 0 True
     example_state =
     (Inl (NameError ''new_error''), snd (new_array [10, 10, 10, 10] example_state))"
proof -
  note ex = example_spectrum_fields example_state_objects
  have i: "example_interp1d (arrays example_state (dispersion example_spectrum))
      (arrays example_state (data example_spectrum)) ''linear'' True 0 (arrays example_state 16) =
      Inr [10, 10, 10, 10]"
    by (simp add: example_interp1d_def ex)
  from interpolate_copy_never_returns [where interp1d = example_interp1d and st = example_state
      and self = example_spectrum and kind = "''linear''" and bounds_error = True
      and fill_value = 0 and disp = 16]
  show ?thesis unfolding i by simp
qed

text \<open>
  C6 (amended). With \<^verbatim>\<open>copy=False\<close>, \<open>interpolate\<close> never constructs a spectrum: it
  always raises. When scipy is available and the interpolation routine answers, the
  exception is the not-implemented error; otherwise an earlier exception comes first:
  the routine's own when scipy is available, the ValueError of the guard on the kind
  when scipy is missing and the kind is not linear.
\<close>

theorem interpolate_in_place:
  "(\<exists>e st'. Spectrum1D_interpolate scipy_available interp1d self disp kind bounds_error fill_value
       False st = (Inl e, st')) \<and>
   (scipy_available \<and>
    (\<exists>ys. interp1d (arrays st (dispersion self)) (arrays st (data self)) kind bounds_error
             fill_value (arrays st disp) = Inr ys) \<longrightarrow>
    (\<exists>st'. Spectrum1D_interpolate scipy_available interp1d self disp kind bounds_error fill_value
       False st = (Inl (NotImplementedError ''Inplace will be implemented soon''), st'))) \<and>
   (\<forall>e. scipy_available \<and>
      interp1d (arrays st (dispersion self)) (arrays st (data self)) kind bounds_error
        fill_value (arrays st disp) = Inl e \<longrightarrow>
      Spectrum1D_interpolate scipy_available interp1d self disp kind bounds_error fill_value
        False st = (Inl e, st)) \<and>
   (\<not> scipy_available \<and> kind \<noteq> ''linear'' \<longrightarrow>
      Spectrum1D_interpolate scipy_available interp1d self disp kind bounds_error fill_value
        False st =
        (Inl (ValueError ''Only 'linear' interpolation is available if scipy is not installed''),
         st))"
  by (cases "interp1d (arrays st (dispersion self)) (arrays st (data self)) kind bounds_error
        fill_value (arrays st disp)")
    (auto simp: interpolate_steps)

theorem interpolate_in_place_witness:
  "(\<exists>ys. example_interp1d (arrays example_state (dispersion example_spectrum))
      (arrays example_state (data example_spectrum)) ''linear'' True 0 (arrays example_state 16) =
      Inr ys) \<and>
   (\<exists>st'. Spectrum1D_interpolate True example_interp1d example_spectrum 16 ''linear'' True 0 False
      example_state = (Inl (NotImplementedError ''Inplace will be implemented soon''), st'))"
proof -
  note ex = example_spectrum_fields example_state_objects
  have i: "\<exists>ys. example_interp1d (arrays example_state (dispersion example_spectrum))
      (arrays example_state (data example_spectrum)) ''linear'' True 0 (arrays example_state 16) =
      Inr ys"
    by (simp add: example_interp1d_def ex)
  from interpolate_in_place [where scipy_available = True and interp1d = example_interp1d
      and st = example_state and self = example_spectrum and kind = "''linear''"
      and bounds_error = True and fill_value = 0 and disp = 16]
  have "\<exists>st'. Spectrum1D_interpolate True example_interp1d example_spectrum 16 ''linear'' True 0
      False example_state = (Inl (NotImplementedError ''Inplace will be implemented soon''), st')"
    using i by (elim conjE) simp
  with i show ?thesis by (intro conjI)
qed

text \<open>
  The claim as stated fails without scipy on a kind other than linear: the guard on the
  kind raises its ValueError before the copy flag is looked at.
\<close>

theorem interpolate_in_place_counterexample:
  "fst (Spectrum1D_interpolate False example_interp1d example_spectrum 16 ''cubic'' True 0 False
     example_state) =
     Inl (ValueError ''Only 'linear' interpolation is available if scipy is not installed'') \<and>
   fst (Spectrum1D_interpolate False example_interp1d example_spectrum 16 ''cubic'' True 0 False
     example_state) \<noteq> Inl (NotImplementedError ''Inplace will be implemented soon'')"
  by (simp add: interpolate_steps)

subsection \<open>The in-place branch of slice\<close>

text \<open>
  \<open>slice\<close> has no parameter \<^verbatim>\<open>copy\<close>: its test \<^verbatim>\<open>if copy\<close> reads the module, which is
  true, so the branch raising the not-implemented error is never taken.
\<close>

lemma slice_always_copies:
  "\<exists>c. resolve (slice_locals start stop step un) module_globals ''copy'' = Inr c \<and>
        truthy st c = Inr True"
  by (simp add: resolve_copy_in_slice truthy_module)


lemma slice_indices_error: "slice_indices sl n = Inl e \<Longrightarrow> e \<noteq> NotImplementedError m"
  by (cases sl)
    (auto simp: slice_indices_def as_index_def Let_def split: sum.splits pyval.splits if_splits)

lemma getitem_error: "getitem xs sl = Inl e \<Longrightarrow> e \<noteq> NotImplementedError m"
  by (auto simp: getitem_def split: sum.splits dest: slice_indices_error)

lemma getitem_array_error:
  "getitem_array a sl st = (Inl e, st') \<Longrightarrow> e \<noteq> NotImplementedError m"
  by (auto simp: getitem_array_def new_array_def split: sum.splits dest: getitem_error)

lemma getitem_mask_error:
  "getitem_mask a sl st = (Inl e, st') \<Longrightarrow> e \<noteq> NotImplementedError m"
  by (auto simp: getitem_mask_def new_mask_def split: sum.splits dest: getitem_error)

lemma Spectrum1D_init_error:
  "Spectrum1D_init f d du e k mt un c v st = (Inl x, st') \<Longrightarrow> x \<noteq> NotImplementedError m"
  by (auto simp: Spectrum1D_init_def NDData_init_def seq_def ret_def copy_array_def copy_mask_def
      new_array_def new_mask_def new_dict_def deepcopy_dict_def
      split: if_splits option.splits sum.splits prod.splits)


lemma seq_pure_Inr: "seq (pure (Inr x)) f = f x"
  by (rule ext) (simp add: seq_def pure_def)

lemma seq_const_Inr: "seq (\<lambda>st. (Inr x, st)) f = f x"
  by (rule ext) (simp add: seq_def)

lemma seq_never:
  assumes "\<And>s s'. m s \<noteq> (Inl e, s')" and "\<And>x s s'. f x s \<noteq> (Inl e, s')"
  shows "seq m f st \<noteq> (Inl e, st')"
  using assms by (auto simp: seq_def split: prod.splits sum.splits)

lemma ret_never: "ret x s \<noteq> (Inl e, s')"
  by (simp add: ret_def)

lemma optional_array_never:
  "(case x of None \<Rightarrow> ret None | Some e \<Rightarrow> seq (getitem_array e sl) (\<lambda>a. ret (Some a))) s
     \<noteq> (Inl (NotImplementedError m), s')"
proof (cases x)
  case None
  then show ?thesis by (simp add: ret_def)
next
  case (Some e)
  have "seq (getitem_array e sl) (\<lambda>a. ret (Some a)) s \<noteq> (Inl (NotImplementedError m), s')"
    by (intro seq_never) (auto simp: ret_def dest: getitem_array_error)
  with Some show ?thesis by simp
qed

lemma optional_mask_never:
  "(case x of None \<Rightarrow> ret None | Some e \<Rightarrow> seq (getitem_mask e sl) (\<lambda>a. ret (Some a))) s
     \<noteq> (Inl (NotImplementedError m), s')"
proof (cases x)
  case None
  then show ?thesis by (simp add: ret_def)
next
  case (Some e)
  have "seq (getitem_mask e sl) (\<lambda>a. ret (Some a)) s \<noteq> (Inl (NotImplementedError m), s')"
    by (intro seq_never) (auto simp: ret_def dest: getitem_mask_error)
  with Some show ?thesis by simp
qed

lemma search_bounds_error: "search_bounds a start stop = Inl e \<Longrightarrow> e \<noteq> NotImplementedError m"
  by (auto simp: search_bounds_def split: option.splits if_splits)

lemma slice_bounds_never:
  "(if un = ''dispersion'' then
      (if step \<noteq> PNone
       then Inl (ValueError ''step can only be specified for units=pixel'')
       else
         (case search_bounds a start stop of
            Inl e \<Rightarrow> Inl e
          | Inr (start_idx, stop_idx) \<Rightarrow> Inr (g start_idx stop_idx)))
    else if un = ''index'' then Inr sl
    else Inl (ValueError units_message), s) \<noteq> (Inl (NotImplementedError m), s')"
  by (auto split: sum.splits prod.splits dest: search_bounds_error)

lemma slice_never_not_implemented:
  "Spectrum1D_slice self start stop step un st \<noteq> (Inl (NotImplementedError m), st')"
  unfolding Spectrum1D_slice_def resolve_copy_in_slice seq_pure_Inr truthy_module seq_const_Inr
    if_True getattr_deepcopy_copy
  by (intro seq_never slice_bounds_never optional_array_never optional_mask_never)
    (auto simp: deepcopy_dict_def new_dict_def dest: getitem_array_error Spectrum1D_init_error)

end
